theory Spec2Isabelle
  imports Main "HOL-Library.FSet" "HOL-Library.Char_ord" "HOL-Library.List_Lexorder"
begin

section \<open>Errors and outcomes\<close>

text \<open>
  A Go \<^verbatim>\<open>error\<close> value. \<open>Errorf\<close> is \<^verbatim>\<open>fmt.Errorf\<close>: the format string and its
  arguments, kept unformatted. \<open>External\<close> is an error made outside the two handlers
  (the SDK client, an identifier parser, the UUID generator).
  \<open>TimeoutError\<close> and \<open>UnexpectedStateError\<close> are the two errors of the polling
  primitive of the host framework.

  Modelled from the spec: \<^verbatim>\<open>tf.ImportAsExistsError(resourceName, id)\<close> is a helper of the
  repository outside the two files. The spec has it as the "already exists" condition
  that names the identifier, so it is a constructor that carries both arguments.
\<close>

datatype error =
    External string
  | Errorf string "fmtarg list"
  | ImportAsExistsError string string
  | TimeoutError
  | UnexpectedStateError string
and fmtarg = Str string | Err error

text \<open>
  A Go function either returns or panics (nil pointer dereference): \<open>Crash\<close> is the panic.
\<close>

datatype 'a outcome = Crash | Return 'a

section \<open>Role Definition: data\<close>

text \<open>\<^verbatim>\<open>authorization.Permission\<close>: four pointers to string slices.\<close>

record permission =
  Actions :: "string list option"
  NotActions :: "string list option"
  DataActions :: "string list option"
  NotDataActions :: "string list option"

text \<open>
  \<^verbatim>\<open>RoleDefinitionProperties\<close> as the workaround client decodes it (with the two
  timestamps), and the \<^verbatim>\<open>RoleDefinition\<close> envelope. \<open>Response\<close> is the HTTP status code
  of the embedded \<^verbatim>\<open>autorest.Response\<close>, \<open>None\<close> when no response was received.
\<close>

record role_definition_properties =
  RoleName :: "string option"
  Description :: "string option"
  RoleType :: "string option"
  Permissions :: "permission list option"
  AssignableScopes :: "string list option"
  CreatedOn :: "string option"
  UpdatedOn :: "string option"

record role_definition =
  Response :: "nat option"
  ID :: "string option"
  RoleDefinitionProperties :: "role_definition_properties option"

text \<open>\<^verbatim>\<open>parse.RoleDefinitionID\<close>, the parsed form of the stored identifier.\<close>

record RoleDefinitionID =
  ResourceID :: string
  Scope :: string
  RoleID :: string

text \<open>
  One element of the \<^verbatim>\<open>permissions\<close> list of the configuration
  (\<^verbatim>\<open>map[string]interface{}\<close>). The two lists are \<^verbatim>\<open>[]interface{}\<close> whose elements are
  nil or a string; the two sets are \<^verbatim>\<open>*schema.Set\<close> built with \<^verbatim>\<open>schema.HashString\<close>,
  finite sets of strings here.
\<close>

record permission_block =
  actions :: "string option list"
  not_actions :: "string option list"
  data_actions :: "string fset"
  not_data_actions :: "string fset"

text \<open>
  Modelled from the spec: \<^verbatim>\<open>schema.Set\<close> belongs to the host framework and is not part of
  the two files. The spec calls data-actions "a set" and compares it order-insensitively,
  so a \<^verbatim>\<open>*schema.Set\<close> of strings is a finite set of strings, \<^verbatim>\<open>schema.NewSet\<close> makes the
  set of the items it is given, and the order in which \<^verbatim>\<open>Set.List()\<close> enumerates is left
  open: it is the parameter \<open>setList\<close> of the functions that call it.
\<close>

definition NewSet :: "string list \<Rightarrow> string fset" where
  "NewSet items = fset_of_list items"

text \<open>
  \<^verbatim>\<open>schema.ResourceData\<close> of the Role Definition resource: the stored identifier, the
  new-resource flag, the fields of the schema and the update timeout in seconds.
  \<^verbatim>\<open>assignable_scopes\<close> is a \<^verbatim>\<open>[]interface{}\<close> whose elements are nil or a string, like
  the two lists of a permission block.
\<close>

record role_data =
  rd_Id :: string
  rd_IsNewResource :: bool
  rd_role_definition_id :: string
  rd_name :: string
  rd_scope :: string
  rd_description :: string
  rd_permissions :: "permission_block option list"
  rd_assignable_scopes :: "string option list"
  rd_role_definition_resource_id :: string
  rd_TimeoutUpdate :: nat

section \<open>Role Definition: expanding and flattening\<close>

text \<open>
  The loop that the source writes four times in \<^verbatim>\<open>expandRoleDefinitionPermissions\<close>:
  nil entries are skipped, every other entry is appended to the output.
\<close>

fun appendStrings :: "string option list \<Rightarrow> string list \<Rightarrow> string list" where
  "appendStrings [] output = output"
| "appendStrings (None # rest) output = appendStrings rest output"
| "appendStrings (Some a # rest) output = appendStrings rest (output @ [a])"

definition expandPermission :: "(string fset \<Rightarrow> string list) \<Rightarrow> permission_block \<Rightarrow> permission" where
  "expandPermission setList raw =
     (let actionsOutput = appendStrings (actions raw) [];
          dataActionsOutput = appendStrings (map Some (setList (data_actions raw))) [];
          notActionsOutput = appendStrings (not_actions raw) [];
          notDataActionsOutput = appendStrings (map Some (setList (not_data_actions raw))) []
      in \<lparr> Actions = Some actionsOutput, NotActions = Some notActionsOutput,
           DataActions = Some dataActionsOutput, NotDataActions = Some notDataActionsOutput \<rparr>)"

fun expandPermissionsLoop ::
  "(string fset \<Rightarrow> string list) \<Rightarrow> permission_block option list \<Rightarrow> permission list \<Rightarrow> permission list" where
  "expandPermissionsLoop setList [] output = output"
| "expandPermissionsLoop setList (None # rest) output = expandPermissionsLoop setList rest output"
| "expandPermissionsLoop setList (Some raw # rest) output =
     expandPermissionsLoop setList rest (output @ [expandPermission setList raw])"

definition expandRoleDefinitionPermissions ::
  "(string fset \<Rightarrow> string list) \<Rightarrow> permission_block option list \<Rightarrow> permission list" where
  "expandRoleDefinitionPermissions setList input =
     (if length input = 0 then [] else expandPermissionsLoop setList input [])"

text \<open>
  The loop of \<^verbatim>\<open>expandRoleDefinitionAssignableScopes\<close>. It has no nil check: a nil entry
  differs from the assigned scope, so it reaches the type assertion \<^verbatim>\<open>scope.(string)\<close>,
  which panics.
\<close>

fun appendOtherScopes :: "string \<Rightarrow> string option list \<Rightarrow> string list \<Rightarrow> string list outcome" where
  "appendOtherScopes assignedScope [] scopes = Return scopes"
| "appendOtherScopes assignedScope (None # rest) scopes = Crash"
| "appendOtherScopes assignedScope (Some scope # rest) scopes =
     appendOtherScopes assignedScope rest
       (if scope \<noteq> assignedScope then scopes @ [scope] else scopes)"

definition expandRoleDefinitionAssignableScopes :: "role_data \<Rightarrow> string list outcome" where
  "expandRoleDefinitionAssignableScopes d =
     (let assignedScope = rd_scope d;
          scopes = [] @ [assignedScope];
          assignableScopes = rd_assignable_scopes d
      in appendOtherScopes assignedScope assignableScopes scopes)"

text \<open>
  Modelled from the spec: \<^verbatim>\<open>utils.FlattenStringSlice\<close> is a helper of the repository
  outside the two files. Flattening returns the strings it is given (the round trip of
  the spec yields the original collections), and a nil pointer gives the empty list, as
  \<^verbatim>\<open>flattenRoleDefinitionAssignableScopes\<close> below does for its own input. Its result
  is a \<^verbatim>\<open>[]interface{}\<close> whose elements are all strings: \<open>map Some\<close> puts it where
  a list of the configuration is expected.
\<close>

definition FlattenStringSlice :: "string list option \<Rightarrow> string list" where
  "FlattenStringSlice input = (case input of None \<Rightarrow> [] | Some items \<Rightarrow> items)"

fun flattenPermissionsLoop :: "permission list \<Rightarrow> permission_block list \<Rightarrow> permission_block list" where
  "flattenPermissionsLoop [] permissions = permissions"
| "flattenPermissionsLoop (p # rest) permissions =
     flattenPermissionsLoop rest
       (permissions @
        [\<lparr> actions = map Some (FlattenStringSlice (Actions p)),
           not_actions = map Some (FlattenStringSlice (NotActions p)),
           data_actions = NewSet (FlattenStringSlice (DataActions p)),
           not_data_actions = NewSet (FlattenStringSlice (NotDataActions p)) \<rparr>])"

definition flattenRoleDefinitionPermissions :: "permission list option \<Rightarrow> permission_block list" where
  "flattenRoleDefinitionPermissions input =
     (case input of None \<Rightarrow> [] | Some ps \<Rightarrow> flattenPermissionsLoop ps [])"

fun flattenScopesLoop :: "string list \<Rightarrow> string list \<Rightarrow> string list" where
  "flattenScopesLoop [] scopes = scopes"
| "flattenScopesLoop (scope # rest) scopes = flattenScopesLoop rest (scopes @ [scope])"

definition flattenRoleDefinitionAssignableScopes :: "string list option \<Rightarrow> string list" where
  "flattenRoleDefinitionAssignableScopes input =
     (case input of None \<Rightarrow> [] | Some ss \<Rightarrow> flattenScopesLoop ss [])"

section \<open>The API client and the trace of calls\<close>

text \<open>
  The SDK client is an external collaborator. Each of its calls is a function of the
  remote state \<open>'r\<close> that returns the Go pair (result, error) and the next remote state.
  The world threaded through a handler is the remote state and the list of API calls
  issued so far.
\<close>

datatype api_call =
    CallGet string string
  | CallCreateOrUpdate string string role_definition
  | CallDelete string string

record 'r world =
  remote :: 'r
  calls :: "api_call list"

record 'r role_client =
  rcGet :: "'r \<Rightarrow> string \<Rightarrow> string \<Rightarrow> (role_definition \<times> error option) \<times> 'r"
  rcCreateOrUpdate :: "'r \<Rightarrow> string \<Rightarrow> string \<Rightarrow> role_definition \<Rightarrow> (role_definition \<times> error option) \<times> 'r"
  rcDelete :: "'r \<Rightarrow> string \<Rightarrow> string \<Rightarrow> (role_definition \<times> error option) \<times> 'r"

definition clientGet ::
  "'r role_client \<Rightarrow> string \<Rightarrow> string \<Rightarrow> 'r world \<Rightarrow> (role_definition \<times> error option) \<times> 'r world" where
  "clientGet client scope roleId w =
     (let (res, r') = rcGet client (remote w) scope roleId
      in (res, \<lparr> remote = r', calls = calls w @ [CallGet scope roleId] \<rparr>))"

definition clientCreateOrUpdate ::
  "'r role_client \<Rightarrow> string \<Rightarrow> string \<Rightarrow> role_definition \<Rightarrow> 'r world
     \<Rightarrow> (role_definition \<times> error option) \<times> 'r world" where
  "clientCreateOrUpdate client scope roleId properties w =
     (let (res, r') = rcCreateOrUpdate client (remote w) scope roleId properties
      in (res, \<lparr> remote = r', calls = calls w @ [CallCreateOrUpdate scope roleId properties] \<rparr>))"

definition clientDelete ::
  "'r role_client \<Rightarrow> string \<Rightarrow> string \<Rightarrow> 'r world \<Rightarrow> (role_definition \<times> error option) \<times> 'r world" where
  "clientDelete client scope roleId w =
     (let (res, r') = rcDelete client (remote w) scope roleId
      in (res, \<lparr> remote = r', calls = calls w @ [CallDelete scope roleId] \<rparr>))"

text \<open>
  Modelled from the spec: \<^verbatim>\<open>utils.ResponseWasNotFound\<close> is a helper of the repository
  outside the two files. The "not found" outcome of a call is a response that was
  received with HTTP status 404.
\<close>

definition ResponseWasNotFound :: "nat option \<Rightarrow> bool" where
  "ResponseWasNotFound resp = (resp = Some 404)"

section \<open>Role Definition: the observation of the convergence poll\<close>

definition roleDefinitionEventualConsistencyUpdate ::
  "'r role_client \<Rightarrow> RoleDefinitionID \<Rightarrow> string \<Rightarrow> 'r world
     \<Rightarrow> (role_definition \<times> string \<times> error option) outcome \<times> 'r world" where
  "roleDefinitionEventualConsistencyUpdate client rid expectedUpdateDate w =
     (let ((resp, err), w1) = clientGet client (Scope rid) (RoleID rid) w in
      case err of
        Some e \<Rightarrow> (Return (resp, ''Failed'', Some e), w1)
      | None \<Rightarrow>
         (case RoleDefinitionProperties resp of
            None \<Rightarrow> (Return (resp, ''Failed'', Some (Errorf ''`properties` was nil'' [])), w1)
          | Some props \<Rightarrow>
             (case CreatedOn props of
                None \<Rightarrow>
                  (Return (resp, ''Failed'', Some (Errorf ''`properties.CreatedOn` was nil'' [])), w1)
              | Some respCreatedOn \<Rightarrow>
                 (case UpdatedOn props of
                    None \<Rightarrow> (Crash, w1)
                  | Some respUpdatedOn \<Rightarrow>
                      if respCreatedOn = expectedUpdateDate
                      then (Return (resp, ''Pending'', None), w1)
                      else if respUpdatedOn \<noteq> expectedUpdateDate
                      then (Return (resp, ''Pending'', None), w1)
                      else (Return (resp, ''Updated'', None), w1)))))"

text \<open>
  A client for concrete runs: the remote state counts the calls made so far, and the
  \<open>n\<close>-th call, whatever it is, is answered with \<open>script n\<close>.
\<close>

definition replayClient :: "(nat \<Rightarrow> role_definition \<times> error option) \<Rightarrow> nat role_client" where
  "replayClient script =
     \<lparr> rcGet = (\<lambda>n scope roleId. (script n, Suc n)),
       rcCreateOrUpdate = (\<lambda>n scope roleId properties. (script n, Suc n)),
       rcDelete = (\<lambda>n scope roleId. (script n, Suc n)) \<rparr>"

definition observed :: "string option \<Rightarrow> string option \<Rightarrow> role_definition \<times> error option" where
  "observed created updated =
     (\<lparr> Response = Some 200, ID = Some ''rid'',
        RoleDefinitionProperties = Some
          \<lparr> RoleName = None, Description = None, RoleType = None, Permissions = None,
            AssignableScopes = None, CreatedOn = created, UpdatedOn = updated \<rparr> \<rparr>, None)"

section \<open>The polling primitive of the host framework\<close>

text \<open>
  \<^verbatim>\<open>resource.StateChangeConf\<close> with the fields that \<^verbatim>\<open>resourceArmRoleDefinitionUpdate\<close>
  sets; durations are in seconds.
\<close>

record 'r StateChangeConf =
  ContinuousTargetOccurence :: nat
  Delay :: nat
  MinTimeout :: nat
  Pending :: "string list"
  Target :: "string list"
  Refresh :: "'r world \<Rightarrow> (role_definition \<times> string \<times> error option) outcome \<times> 'r world"
  Timeout :: nat

text \<open>
  Modelled from the spec: \<^verbatim>\<open>StateChangeConf.WaitForState\<close> is the host framework's
  polling primitive and is not part of the two files. The spec has the poll bounded by
  the caller's update timeout, polling every 10 seconds and requiring 5 consecutive
  Updated observations before declaring success; "any API error aborts immediately";
  "Timeout expiry aborts the poll and surfaces a timeout error"; the loop is to
  "sleep 10s between observations, bounded by an overall deadline supplied by the
  caller".

  \<open>clock\<close> is the time in seconds since the poll began, \<open>targetOccurence\<close> the number of
  target observations in a row so far. An observation is made only while the deadline
  has not passed, and is taken to cost no time itself; a pending observation resets the
  count; a state that is neither target nor pending is an error; a panic of the
  observation is a panic of the poll. The wait between two observations is
  \<open>MinTimeout\<close>; a configuration without such a wait is not described by the spec and
  ends here as a timeout.
\<close>

function pollLoop :: "'r StateChangeConf \<Rightarrow> nat \<Rightarrow> nat \<Rightarrow> 'r world \<Rightarrow> error option outcome \<times> 'r world" where
  "pollLoop conf clock targetOccurence w =
     (if Timeout conf < clock \<or> MinTimeout conf = 0 then (Return (Some TimeoutError), w)
      else
        (case Refresh conf w of
           (Crash, w1) \<Rightarrow> (Crash, w1)
         | (Return (res, currentState, Some err), w1) \<Rightarrow> (Return (Some err), w1)
         | (Return (res, currentState, None), w1) \<Rightarrow>
             if currentState \<in> set (Target conf) then
               (if ContinuousTargetOccurence conf \<le> Suc targetOccurence then (Return None, w1)
                else pollLoop conf (clock + MinTimeout conf) (Suc targetOccurence) w1)
             else if currentState \<in> set (Pending conf) then
               pollLoop conf (clock + MinTimeout conf) 0 w1
             else (Return (Some (UnexpectedStateError currentState)), w1)))"
  by pat_completeness auto
termination
  by (relation "measure (\<lambda>(conf, clock, targetOccurence, w). Suc (Timeout conf) - clock)") auto

definition WaitForState :: "'r StateChangeConf \<Rightarrow> 'r world \<Rightarrow> error option outcome \<times> 'r world" where
  "WaitForState conf w = pollLoop conf (Delay conf) 0 w"

section \<open>Role Definition: the handlers\<close>

text \<open>
  What the handlers take from outside the two files: the identifier parser
  \<^verbatim>\<open>parse.RoleDefinitionId\<close>, which returns the Go pair (pointer, error); the result of
  \<^verbatim>\<open>uuid.GenerateUUID()\<close>, the Go pair (string, error); and the enumeration order of
  \<^verbatim>\<open>Set.List()\<close>.
\<close>

record role_env =
  RoleDefinitionId :: "string \<Rightarrow> RoleDefinitionID option \<times> error option"
  GenerateUUID :: "string \<times> error option"
  setList :: "string fset \<Rightarrow> string list"

text \<open>
  \<^verbatim>\<open>utils.String\<close> takes the address of a string; \<^verbatim>\<open>d.Set\<close> of a nil string pointer
  stores the empty string. \<^verbatim>\<open>d.Set\<close> of a value of the field's own type does not fail,
  so the two error checks on \<^verbatim>\<open>d.Set\<close> in Read have no branch here.
\<close>

definition stringValue :: "string option \<Rightarrow> string" where
  "stringValue p = (case p of None \<Rightarrow> [] | Some s \<Rightarrow> s)"

text \<open>
  The payload that Create and Update build from the record and the expanded assignable
  scopes.
\<close>

definition rolePayload :: "role_env \<Rightarrow> role_data \<Rightarrow> string list \<Rightarrow> role_definition" where
  "rolePayload env d assignableScopes =
     (let name = rd_name d;
          description = rd_description d;
          roleType = ''CustomRole'';
          permissions = expandRoleDefinitionPermissions (setList env) (rd_permissions d)
      in \<lparr> Response = None, ID = None,
           RoleDefinitionProperties = Some
             \<lparr> RoleName = Some name, Description = Some description, RoleType = Some roleType,
               Permissions = Some permissions, AssignableScopes = Some assignableScopes,
               CreatedOn = None, UpdatedOn = None \<rparr> \<rparr>)"

definition resourceArmRoleDefinitionRead ::
  "role_env \<Rightarrow> 'r role_client \<Rightarrow> role_data \<Rightarrow> 'r world \<Rightarrow> error option outcome \<times> role_data \<times> 'r world" where
  "resourceArmRoleDefinitionRead env client d w =
     (let (roleDefinitionId, err) = RoleDefinitionId env (rd_Id d) in
      case err of
        Some e \<Rightarrow> (Return (Some e), d, w)
      | None \<Rightarrow>
         (case roleDefinitionId of
            None \<Rightarrow> (Crash, d, w)
          | Some rid \<Rightarrow>
             (let d1 = d\<lparr> rd_scope := Scope rid, rd_role_definition_id := RoleID rid,
                         rd_role_definition_resource_id := ResourceID rid \<rparr>;
                  ((resp, err), w1) = clientGet client (Scope rid) (RoleID rid) w
              in case err of
                   Some e \<Rightarrow>
                     if ResponseWasNotFound (Response resp)
                     then (Return None, d1\<lparr> rd_Id := [] \<rparr>, w1)
                     else (Return (Some (Errorf ''Error loading Role Definition %q: %+v''
                                           [Str (rd_Id d1), Err e])), d1, w1)
                 | None \<Rightarrow>
                    (case RoleDefinitionProperties resp of
                       None \<Rightarrow> (Return None, d1, w1)
                     | Some props \<Rightarrow>
                        (Return None,
                         d1\<lparr> rd_name := stringValue (RoleName props),
                             rd_description := stringValue (Description props),
                             rd_permissions := map Some (flattenRoleDefinitionPermissions (Permissions props)),
                             rd_assignable_scopes :=
                               map Some (flattenRoleDefinitionAssignableScopes (AssignableScopes props)) \<rparr>,
                         w1)))))"

text \<open>Lines 136 to 144 of Create: the caller's role id, or a fresh UUID.\<close>

definition createRoleDefinitionId :: "role_env \<Rightarrow> role_data \<Rightarrow> error + string" where
  "createRoleDefinitionId env d =
     (let roleDefinitionId = rd_role_definition_id d in
      if roleDefinitionId = [] then
        (case GenerateUUID env of
           (uuid, Some err) \<Rightarrow> Inl (Errorf ''Error generating UUID for Role Assignment: %+v'' [Err err])
         | (uuid, None) \<Rightarrow> Inr uuid)
      else Inr roleDefinitionId)"

text \<open>Lines 155 to 167 of Create: the check for an existing remote object.\<close>

definition createCheckExisting ::
  "'r role_client \<Rightarrow> role_data \<Rightarrow> string \<Rightarrow> 'r world \<Rightarrow> error option \<times> 'r world" where
  "createCheckExisting client d roleDefinitionId w =
     (let name = rd_name d; scope = rd_scope d in
      if rd_IsNewResource d then
        (let ((existing, err), w1) = clientGet client scope roleDefinitionId w in
         if err \<noteq> None \<and> \<not> ResponseWasNotFound (Response existing) then
           (Some (Errorf ''Error checking for presence of existing Role Definition ID for %q (Scope %q)''
                    [Str name, Str scope]), w1)
         else
           (case ID existing of
              None \<Rightarrow> (None, w1)
            | Some existingID \<Rightarrow>
                if existingID \<noteq> [] then
                  (let importID = existingID @ ''|'' @ scope
                   in (Some (ImportAsExistsError ''azurerm_role_definition'' importID), w1))
                else (None, w1)))
      else (None, w))"

definition resourceArmRoleDefinitionCreate ::
  "role_env \<Rightarrow> 'r role_client \<Rightarrow> role_data \<Rightarrow> 'r world \<Rightarrow> error option outcome \<times> role_data \<times> 'r world" where
  "resourceArmRoleDefinitionCreate env client d w =
     (case createRoleDefinitionId env d of
        Inl e \<Rightarrow> (Return (Some e), d, w)
      | Inr roleDefinitionId \<Rightarrow>
        (case expandRoleDefinitionAssignableScopes d of
           Crash \<Rightarrow> (Crash, d, w)
         | Return assignableScopes \<Rightarrow>
         (let name = rd_name d; scope = rd_scope d in
          case createCheckExisting client d roleDefinitionId w of
            (Some e, w1) \<Rightarrow> (Return (Some e), d, w1)
          | (None, w1) \<Rightarrow>
             (let properties = rolePayload env d assignableScopes;
                  ((created, err), w2) = clientCreateOrUpdate client scope roleDefinitionId properties w1
              in case err of
                   Some e \<Rightarrow> (Return (Some e), d, w2)
                 | None \<Rightarrow>
                    (let ((read, err), w3) = clientGet client scope roleDefinitionId w2 in
                     case err of
                       Some e \<Rightarrow> (Return (Some e), d, w3)
                     | None \<Rightarrow>
                        (case ID read of
                           None \<Rightarrow>
                             (Return (Some (Errorf ''Cannot read Role Definition ID for %q (Scope %q)''
                                              [Str name, Str scope])), d, w3)
                         | Some readID \<Rightarrow>
                             if readID = [] then
                               (Return (Some (Errorf ''Cannot read Role Definition ID for %q (Scope %q)''
                                                [Str name, Str scope])), d, w3)
                             else resourceArmRoleDefinitionRead env client
                                    (d\<lparr> rd_Id := readID @ ''|'' @ scope \<rparr>) w3))))))"

text \<open>Lines 241 to 249 of Update: the configuration of the poll.\<close>

definition updateStateConf ::
  "'r role_client \<Rightarrow> role_data \<Rightarrow> RoleDefinitionID \<Rightarrow> string \<Rightarrow> 'r StateChangeConf" where
  "updateStateConf client d roleDefinitionId updatedOn =
     \<lparr> ContinuousTargetOccurence = 5,
       Delay = 10,
       MinTimeout = 10,
       Pending = [''Pending''],
       Target = [''Updated''],
       Refresh = roleDefinitionEventualConsistencyUpdate client roleDefinitionId updatedOn,
       Timeout = rd_TimeoutUpdate d \<rparr>"

definition resourceArmRoleDefinitionUpdate ::
  "role_env \<Rightarrow> 'r role_client \<Rightarrow> role_data \<Rightarrow> 'r world \<Rightarrow> error option outcome \<times> role_data \<times> 'r world" where
  "resourceArmRoleDefinitionUpdate env client d w =
     (let (roleDefinitionId, err) = RoleDefinitionId env (rd_Id d) in
      case err of
        Some e \<Rightarrow> (Return (Some e), d, w)
      | None \<Rightarrow>
        (case expandRoleDefinitionAssignableScopes d of
           Crash \<Rightarrow> (Crash, d, w)
         | Return assignableScopes \<Rightarrow>
         (case roleDefinitionId of
            None \<Rightarrow> (Crash, d, w)
          | Some rid \<Rightarrow>
             (let properties = rolePayload env d assignableScopes;
                  ((resp, err), w1) = clientCreateOrUpdate client (Scope rid) (RoleID rid) properties w
              in case err of
                   Some e \<Rightarrow>
                     (Return (Some (Errorf ''updating Role Definition %q (Scope %q): %+v''
                                      [Str (RoleID rid), Str (Scope rid), Err e])), d, w1)
                 | None \<Rightarrow>
                    (case RoleDefinitionProperties resp of
                       None \<Rightarrow>
                         (Return (Some (Errorf ''updating Role Definition %q (Scope %q): `properties` was nil''
                                          [Str (RoleID rid), Str (Scope rid)])), d, w1)
                     | Some props \<Rightarrow>
                        (case UpdatedOn props of
                           None \<Rightarrow>
                             (Return (Some (Errorf
                                ''updating Role Definition %q (Scope %q): `properties.UpdatedOn` was nil''
                                [Str (RoleID rid), Str (Scope rid)])), d, w1)
                         | Some updatedOn \<Rightarrow>
                            (case WaitForState (updateStateConf client d rid updatedOn) w1 of
                               (Crash, w2) \<Rightarrow> (Crash, d, w2)
                             | (Return (Some e), w2) \<Rightarrow>
                                 (Return (Some (Errorf
                                    ''waiting for Role Definition %q (Scope %q) to settle down: %+v''
                                    [Str (RoleID rid), Str (Scope rid), Err e])), d, w2)
                             | (Return None, w2) \<Rightarrow> resourceArmRoleDefinitionRead env client d w2)))))))"

definition resourceArmRoleDefinitionDelete ::
  "role_env \<Rightarrow> 'r role_client \<Rightarrow> role_data \<Rightarrow> 'r world \<Rightarrow> error option outcome \<times> role_data \<times> 'r world" where
  "resourceArmRoleDefinitionDelete env client d w =
     (let (id, ignored) = RoleDefinitionId env (rd_Id d) in
      case id of
        None \<Rightarrow> (Crash, d, w)
      | Some rid \<Rightarrow>
         (let ((resp, err), w1) = clientDelete client (Scope rid) (RoleID rid) w in
          case err of
            Some e \<Rightarrow>
              if \<not> ResponseWasNotFound (Response resp) then
                (Return (Some (Errorf ''deleting Role Definition %q at Scope %q: %+v''
                                 [Str (RoleID rid), Str (Scope rid), Err e])), d, w1)
              else (Return None, d, w1)
          | None \<Rightarrow> (Return None, d, w1)))"

section \<open>Administrator Binding: data, client and handlers\<close>

text \<open>
  \<^verbatim>\<open>postgresql.ServerAdministratorResource\<close> and its properties; a UUID is kept as its
  canonical string. \<^verbatim>\<open>azure.ResourceID\<close> with the two fields the handlers read.
\<close>

record ServerAdministratorProperties =
  AdministratorType :: "string option"
  Login :: "string option"
  Sid :: "string option"
  TenantID :: "string option"

record ServerAdministratorResource =
  AdminResponse :: "nat option"
  AdminID :: "string option"
  AdminProperties :: "ServerAdministratorProperties option"

record ResourceID =
  ResourceGroup :: string
  Path :: "string \<rightharpoonup> string"

record admin_data =
  ad_Id :: string
  ad_IsNewResource :: bool
  ad_server_name :: string
  ad_resource_group_name :: string
  ad_login :: string
  ad_object_id :: string
  ad_tenant_id :: string

text \<open>
  The calls of \<^verbatim>\<open>ServerAdministratorsClient\<close>; \<open>nat\<close> stands for the handle of a
  long-running operation. The claims about this handler do not speak of the calls
  issued, so its handlers thread the remote state alone.
\<close>

record 'r admin_client =
  acGet :: "'r \<Rightarrow> string \<Rightarrow> string \<Rightarrow> (ServerAdministratorResource \<times> error option) \<times> 'r"
  acCreateOrUpdate ::
    "'r \<Rightarrow> string \<Rightarrow> string \<Rightarrow> ServerAdministratorResource \<Rightarrow> (nat \<times> error option) \<times> 'r"
  acWaitForCompletionRef :: "'r \<Rightarrow> nat \<Rightarrow> error option \<times> 'r"
  acDelete :: "'r \<Rightarrow> string \<Rightarrow> string \<Rightarrow> (nat \<times> error option) \<times> 'r"

text \<open>
  From outside the file: \<^verbatim>\<open>azure.ParseAzureResourceID\<close> (the Go pair (pointer, error)),
  \<^verbatim>\<open>features.ShouldResourcesBeImported()\<close> and \<^verbatim>\<open>uuid.FromStringOrNil\<close>.
\<close>

record admin_env =
  ParseAzureResourceID :: "string \<Rightarrow> ResourceID option \<times> error option"
  ShouldResourcesBeImported :: bool
  FromStringOrNil :: "string \<Rightarrow> string"

text \<open>Lines 77 to 88 of CreateUpdate: the check for an existing remote object.\<close>

definition adminCheckExisting ::
  "admin_env \<Rightarrow> 'r admin_client \<Rightarrow> admin_data \<Rightarrow> 'r \<Rightarrow> error option \<times> 'r" where
  "adminCheckExisting env client d r =
     (let serverName = ad_server_name d; resGroup = ad_resource_group_name d in
      if ShouldResourcesBeImported env \<and> ad_IsNewResource d then
        (let ((existing, err), r1) = acGet client r resGroup serverName in
         case (case err of
                 Some e \<Rightarrow>
                   if \<not> ResponseWasNotFound (AdminResponse existing) then
                     Some (Errorf
                       ''Error checking for presence of existing PostgreSQL AD Administrator (Resource Group %q, Server %q): %+v''
                       [Str resGroup, Str serverName, Err e])
                   else None
               | None \<Rightarrow> None) of
           Some e \<Rightarrow> (Some e, r1)
         | None \<Rightarrow>
            (case AdminID existing of
               None \<Rightarrow> (None, r1)
             | Some existingID \<Rightarrow>
                 if existingID \<noteq> [] then
                   (Some (ImportAsExistsError ''azurerm_postgresql_active_directory_administrator''
                            existingID), r1)
                 else (None, r1)))
      else (None, r))"

text \<open>Lines 90 to 97 of CreateUpdate: the payload of the upsert.\<close>

definition adminParameters :: "string \<Rightarrow> string \<Rightarrow> string \<Rightarrow> ServerAdministratorResource" where
  "adminParameters login objectId tenantId =
     \<lparr> AdminResponse = None, AdminID = None,
       AdminProperties = Some
         \<lparr> AdministratorType = Some ''ActiveDirectory'', Login = Some login,
           Sid = Some objectId, TenantID = Some tenantId \<rparr> \<rparr>"

definition resourceArmPostgreSQLAdministratorCreateUpdate ::
  "admin_env \<Rightarrow> 'r admin_client \<Rightarrow> admin_data \<Rightarrow> 'r \<Rightarrow> error option outcome \<times> admin_data \<times> 'r" where
  "resourceArmPostgreSQLAdministratorCreateUpdate env client d r =
     (let serverName = ad_server_name d;
          resGroup = ad_resource_group_name d;
          login = ad_login d;
          objectId = FromStringOrNil env (ad_object_id d);
          tenantId = FromStringOrNil env (ad_tenant_id d)
      in case adminCheckExisting env client d r of
           (Some e, r1) \<Rightarrow> (Return (Some e), d, r1)
         | (None, r1) \<Rightarrow>
            (let parameters = adminParameters login objectId tenantId;
                 ((future, err), r2) = acCreateOrUpdate client r1 resGroup serverName parameters
             in case err of
                  Some e \<Rightarrow>
                    (Return (Some (Errorf
                       ''Error issuing create/update request for PostgreSQL AD Administrator (Resource Group %q, Server %q): %+v''
                       [Str resGroup, Str serverName, Err e])), d, r2)
                | None \<Rightarrow>
                   (let (err, r3) = acWaitForCompletionRef client r2 future in
                    case err of
                      Some e \<Rightarrow>
                        (Return (Some (Errorf
                           ''Error waiting on create/update future for PostgreSQL AD Administrator (Resource Group %q, Server %q): %+v''
                           [Str resGroup, Str serverName, Err e])), d, r3)
                    | None \<Rightarrow>
                       (let ((resp, err), r4) = acGet client r3 resGroup serverName in
                        case err of
                          Some e \<Rightarrow>
                            (Return (Some (Errorf
                               ''Error issuing get request for PostgreSQL AD Administrator (Resource Group %q, Server %q): %+v''
                               [Str resGroup, Str serverName, Err e])), d, r4)
                        | None \<Rightarrow>
                           (case AdminID resp of
                              None \<Rightarrow> (Crash, d, r4)
                            | Some respID \<Rightarrow> (Return None, d\<lparr> ad_Id := respID \<rparr>, r4))))))"

text \<open>
  In Read, \<^verbatim>\<open>resp.Login\<close> goes through the embedded properties pointer and
  \<^verbatim>\<open>resp.Sid.String()\<close>, \<^verbatim>\<open>resp.TenantID.String()\<close> through the two UUID pointers: each
  of the three panics on nil. A missing key of \<^verbatim>\<open>id.Path\<close> reads as the empty string.
\<close>

definition resourceArmPostgreSQLAdministratorRead ::
  "admin_env \<Rightarrow> 'r admin_client \<Rightarrow> admin_data \<Rightarrow> 'r \<Rightarrow> error option outcome \<times> admin_data \<times> 'r" where
  "resourceArmPostgreSQLAdministratorRead env client d r =
     (let (id, err) = ParseAzureResourceID env (ad_Id d) in
      case err of
        Some e \<Rightarrow> (Return (Some e), d, r)
      | None \<Rightarrow>
         (case id of
            None \<Rightarrow> (Crash, d, r)
          | Some rid \<Rightarrow>
             (let resourceGroup = ResourceGroup rid;
                  serverName = stringValue (Path rid ''servers'');
                  ((resp, err), r1) = acGet client r resourceGroup serverName
              in case err of
                   Some e \<Rightarrow>
                     if ResponseWasNotFound (AdminResponse resp)
                     then (Return None, d\<lparr> ad_Id := [] \<rparr>, r1)
                     else (Return (Some (Errorf ''Error reading PostgreSQL AD administrator: %+v'' [Err e])),
                           d, r1)
                 | None \<Rightarrow>
                    (let d1 = d\<lparr> ad_resource_group_name := resourceGroup, ad_server_name := serverName \<rparr> in
                     case AdminProperties resp of
                       None \<Rightarrow> (Crash, d1, r1)
                     | Some props \<Rightarrow>
                        (let d2 = d1\<lparr> ad_login := stringValue (Login props) \<rparr> in
                         case Sid props of
                           None \<Rightarrow> (Crash, d2, r1)
                         | Some sid \<Rightarrow>
                            (let d3 = d2\<lparr> ad_object_id := sid \<rparr> in
                             case TenantID props of
                               None \<Rightarrow> (Crash, d3, r1)
                             | Some tenant \<Rightarrow> (Return None, d3\<lparr> ad_tenant_id := tenant \<rparr>, r1)))))))"

definition resourceArmPostgreSQLAdministratorDelete ::
  "admin_env \<Rightarrow> 'r admin_client \<Rightarrow> admin_data \<Rightarrow> 'r \<Rightarrow> error option outcome \<times> admin_data \<times> 'r" where
  "resourceArmPostgreSQLAdministratorDelete env client d r =
     (let (id, err) = ParseAzureResourceID env (ad_Id d) in
      case err of
        Some e \<Rightarrow> (Return (Some e), d, r)
      | None \<Rightarrow>
         (case id of
            None \<Rightarrow> (Crash, d, r)
          | Some rid \<Rightarrow>
             (let resourceGroup = ResourceGroup rid;
                  serverName = stringValue (Path rid ''servers'');
                  ((future, err), r1) = acDelete client r resourceGroup serverName
              in case err of
                   Some e \<Rightarrow>
                     (Return (Some (Errorf ''Error deleting PostgreSQL AD Administrator: %+v'' [Err e])),
                      d, r1)
                 | None \<Rightarrow> (Return None, d, r1))))"

section \<open>Concrete inputs\<close>

definition sampleBlock :: permission_block where
  "sampleBlock =
     \<lparr> actions = [Some ''*/read''], not_actions = [Some ''Microsoft.Authorization/*/write''],
       data_actions = {|''Microsoft.Storage/storageAccounts/blobServices/containers/blobs/read''|},
       not_data_actions = {|''a'', ''b''|} \<rparr>"

text \<open>A parsed identifier, its stored form, and a parser that accepts only that form.\<close>

definition sampleId :: RoleDefinitionID where
  "sampleId = \<lparr> ResourceID = ''/subscriptions/X/providers/Microsoft.Authorization/roleDefinitions/r1'',
                 Scope = ''/subscriptions/X'', RoleID = ''r1'' \<rparr>"

definition sampleParse :: "string \<Rightarrow> RoleDefinitionID option \<times> error option" where
  "sampleParse input =
     (if input = ''/subscriptions/X/providers/Microsoft.Authorization/roleDefinitions/r1|/subscriptions/X''
      then (Some sampleId, None)
      else (None, Some (External ''could not parse Role Definition ID, invalid format'')))"

definition sampleEnv :: role_env where
  "sampleEnv = \<lparr> RoleDefinitionId = sampleParse, GenerateUUID = (''r1'', None),
                  setList = sorted_list_of_fset \<rparr>"

definition sampleData :: role_data where
  "sampleData =
     \<lparr> rd_Id = ''/subscriptions/X/providers/Microsoft.Authorization/roleDefinitions/r1|/subscriptions/X'',
       rd_IsNewResource = True, rd_role_definition_id = ''r1'', rd_name = ''reader'',
       rd_scope = ''/subscriptions/X'', rd_description = [], rd_permissions = [Some sampleBlock],
       rd_assignable_scopes = [], rd_role_definition_resource_id = [],
       rd_TimeoutUpdate = 1800 \<rparr>"

definition startWorld :: "nat world" where
  "startWorld = \<lparr> remote = 0, calls = [] \<rparr>"

text \<open>
  Mocked reads for the poll: createdOn is the expected marker \<open>''t1''\<close> on the first
  two observations; from the third on createdOn is older and updatedOn is the marker.
\<close>

definition sampleObs :: "nat \<Rightarrow> role_definition \<times> error option" where
  "sampleObs i = (if i < 2 then observed (Some ''t1'') (Some ''t0'')
                  else observed (Some ''t0'') (Some ''t1''))"

text \<open>A response that carries nothing but a status code.\<close>

definition bareResponse :: "nat \<Rightarrow> role_definition" where
  "bareResponse code = \<lparr> Response = Some code, ID = None, RoleDefinitionProperties = None \<rparr>"

text \<open>
  Answers for a Create of a new resource: nothing is found at first, the upsert
  succeeds, and the re-read succeeds with no identifier.
\<close>

definition sampleCreateScript :: "nat \<Rightarrow> role_definition \<times> error option" where
  "sampleCreateScript n =
     (if n = 0 then (bareResponse 404, Some (External ''not found''))
      else (bareResponse 200, None))"

text \<open>
  The Administrator Binding: a parser that accepts one identifier, a stored record, and
  a client that answers the \<open>n\<close>-th call: a Get with \<open>script n\<close>, a Delete with
  \<open>deleteErr\<close>, the upsert and its wait with success.
\<close>

definition sampleAdminId :: ResourceID where
  "sampleAdminId =
     \<lparr> ResourceGroup = ''rg'',
       Path = [''servers'' \<mapsto> ''srv'', ''administrators'' \<mapsto> ''activeDirectory''] \<rparr>"

definition sampleAdminParse :: "string \<Rightarrow> ResourceID option \<times> error option" where
  "sampleAdminParse input =
     (if input = ''/subscriptions/X/resourceGroups/rg/providers/Microsoft.DBforPostgreSQL/servers/srv/administrators/activeDirectory''
      then (Some sampleAdminId, None)
      else (None, Some (External ''Cannot parse Azure ID'')))"

definition sampleAdminEnv :: admin_env where
  "sampleAdminEnv = \<lparr> ParseAzureResourceID = sampleAdminParse, ShouldResourcesBeImported = True,
                       FromStringOrNil = (\<lambda>s. s) \<rparr>"

definition sampleAdminData :: admin_data where
  "sampleAdminData =
     \<lparr> ad_Id = ''/subscriptions/X/resourceGroups/rg/providers/Microsoft.DBforPostgreSQL/servers/srv/administrators/activeDirectory'',
       ad_IsNewResource = True, ad_server_name = ''srv'', ad_resource_group_name = ''rg'',
       ad_login = ''admin'', ad_object_id = ''00000000-0000-0000-0000-000000000001'',
       ad_tenant_id = ''00000000-0000-0000-0000-000000000002'' \<rparr>"

definition replayAdminClient ::
  "(nat \<Rightarrow> ServerAdministratorResource \<times> error option) \<Rightarrow> error option \<Rightarrow> nat admin_client" where
  "replayAdminClient script deleteErr =
     \<lparr> acGet = (\<lambda>n resGroup serverName. (script n, Suc n)),
       acCreateOrUpdate = (\<lambda>n resGroup serverName parameters. ((n, None), Suc n)),
       acWaitForCompletionRef = (\<lambda>n future. (None, Suc n)),
       acDelete = (\<lambda>n resGroup serverName. ((n, deleteErr), Suc n)) \<rparr>"

definition bareAdminResponse :: "nat \<Rightarrow> ServerAdministratorResource" where
  "bareAdminResponse code = \<lparr> AdminResponse = Some code, AdminID = None, AdminProperties = None \<rparr>"

definition sampleAdminScript :: "nat \<Rightarrow> ServerAdministratorResource \<times> error option" where
  "sampleAdminScript n =
     (if n = 0 then (bareAdminResponse 404, Some (External ''not found''))
      else (bareAdminResponse 200, None))"

section \<open>Properties of expanding and flattening\<close>

lemma appendOtherScopes_Some:
  "appendOtherScopes a (map Some xs) acc = Return (acc @ filter (\<lambda>s. s \<noteq> a) xs)"
  by (induction xs arbitrary: acc) simp_all

lemma appendOtherScopes_nil_entry:
  "appendOtherScopes a (map Some pre @ None # post) acc = Crash"
  by (induction pre arbitrary: acc) simp_all

lemma nil_free_is_map_Some: "None \<notin> set xs \<Longrightarrow> \<exists>ys. xs = map Some ys"
proof (induction xs)
  case Nil
  show ?case by simp
next
  case (Cons x xs)
  then obtain ys where "xs = map Some ys" by auto
  moreover from Cons.prems obtain y where "x = Some y" by (cases x) auto
  ultimately have "x # xs = map Some (y # ys)" by simp
  then show ?case by (rule exI)
qed

text \<open>
  When every entry of \<^verbatim>\<open>assignable_scopes\<close> is a string, the expansion returns, and what
  it returns is as C4 says: the resource's own scope is element 0, it occurs exactly
  once however often the caller listed it, and after it come the caller's other scopes
  in their order.
\<close>

lemma expand_assignable_scopes_of_strings:
  assumes "rd_assignable_scopes d = map Some given"
  shows "\<exists>scopes. expandRoleDefinitionAssignableScopes d = Return scopes
           \<and> scopes ! 0 = rd_scope d
           \<and> count_list scopes (rd_scope d) = 1
           \<and> tl scopes = filter (\<lambda>s. s \<noteq> rd_scope d) given"
proof -
  have e: "expandRoleDefinitionAssignableScopes d
            = Return (rd_scope d # filter (\<lambda>s. s \<noteq> rd_scope d) given)"
    using assms by (simp add: expandRoleDefinitionAssignableScopes_def Let_def appendOtherScopes_Some)
  have "count_list (filter (\<lambda>s. s \<noteq> rd_scope d) given) (rd_scope d) = 0"
    by (simp add: count_list_0_iff)
  with e show ?thesis by simp
qed

lemma expand_assignable_scopes_nil_free_returns:
  "None \<notin> set (rd_assignable_scopes d) \<Longrightarrow> \<exists>scopes. expandRoleDefinitionAssignableScopes d = Return scopes"
  using nil_free_is_map_Some [of "rd_assignable_scopes d"] expand_assignable_scopes_of_strings [of d]
  by blast

text \<open>
  C4. The claim speaks of every configuration, and fails on the code for one whose
  \<^verbatim>\<open>assignable_scopes\<close> holds a nil entry: whatever strings come before and whatever
  comes after, the expansion panics at the first nil entry and produces no list. The
  loops of \<^verbatim>\<open>expandRoleDefinitionPermissions\<close> skip such an entry.
\<close>

theorem expand_assignable_scopes_nil_entry_crashes:
  "expandRoleDefinitionAssignableScopes (d\<lparr> rd_assignable_scopes := map Some pre @ None # post \<rparr>)
   = Crash"
  by (simp add: expandRoleDefinitionAssignableScopes_def Let_def appendOtherScopes_nil_entry)

lemma appendStrings_eq:
  "appendStrings xs acc = acc @ concat (map (\<lambda>i. case i of None \<Rightarrow> [] | Some s \<Rightarrow> [s]) xs)"
  by (induction xs acc rule: appendStrings.induct) simp_all

lemma appendStrings_Some: "appendStrings (map Some xs) [] = xs"
  by (simp add: appendStrings_eq comp_def)

lemma nil_free_map_Some: "None \<notin> set xs \<Longrightarrow> map Some (appendStrings xs []) = xs"
proof (induction xs)
  case Nil
  show ?case by simp
next
  case (Cons x xs)
  then obtain a where "x = Some a" by (cases x) auto
  with Cons show ?case by (simp add: appendStrings_eq)
qed

lemma expandPermissionsLoop_eq:
  "expandPermissionsLoop enum (map Some blocks) acc = acc @ map (expandPermission enum) blocks"
  by (induction blocks arbitrary: acc) simp_all

lemma flattenPermissionsLoop_eq:
  "flattenPermissionsLoop ps acc =
     acc @ map (\<lambda>p. \<lparr> actions = map Some (FlattenStringSlice (Actions p)),
                        not_actions = map Some (FlattenStringSlice (NotActions p)),
                        data_actions = NewSet (FlattenStringSlice (DataActions p)),
                        not_data_actions = NewSet (FlattenStringSlice (NotDataActions p)) \<rparr>) ps"
  by (induction ps arbitrary: acc) simp_all

lemma flatten_expand_block:
  assumes "fset_of_list (enum (data_actions b)) = data_actions b"
    and "fset_of_list (enum (not_data_actions b)) = not_data_actions b"
    and "None \<notin> set (actions b)" and "None \<notin> set (not_actions b)"
  shows "\<lparr> actions = map Some (FlattenStringSlice (Actions (expandPermission enum b))),
           not_actions = map Some (FlattenStringSlice (NotActions (expandPermission enum b))),
           data_actions = NewSet (FlattenStringSlice (DataActions (expandPermission enum b))),
           not_data_actions = NewSet (FlattenStringSlice (NotDataActions (expandPermission enum b))) \<rparr>
         = b"
  using assms
  by (simp add: expandPermission_def FlattenStringSlice_def Let_def appendStrings_Some
        NewSet_def nil_free_map_Some)

text \<open>
  C5. Expanding a list of permission blocks whose actions and not_actions hold strings
  (no nil entry) and flattening the result gives the blocks back: the two lists in their
  order, the two sets as sets. The enumeration order of a set does not matter: any
  \<open>enum\<close> that lists the members of the set it is given will do.
\<close>

theorem permissions_expand_flatten_roundtrip:
  assumes "\<And>S. fset_of_list (enum S) = S"
    and "\<And>b. b \<in> set blocks \<Longrightarrow> None \<notin> set (actions b) \<and> None \<notin> set (not_actions b)"
  shows "flattenRoleDefinitionPermissions
           (Some (expandRoleDefinitionPermissions enum (map Some blocks))) = blocks"
proof -
  have "map (\<lambda>p. \<lparr> actions = map Some (FlattenStringSlice (Actions p)),
                   not_actions = map Some (FlattenStringSlice (NotActions p)),
                   data_actions = NewSet (FlattenStringSlice (DataActions p)),
                   not_data_actions = NewSet (FlattenStringSlice (NotDataActions p)) \<rparr>)
          (map (expandPermission enum) blocks) = blocks"
    using assms(2)
  proof (induction blocks)
    case Nil
    show ?case by simp
  next
    case (Cons b bs)
    have "None \<notin> set (actions b)" "None \<notin> set (not_actions b)"
      using Cons.prems [of b] by simp_all
    then have "\<lparr> actions = map Some (FlattenStringSlice (Actions (expandPermission enum b))),
           not_actions = map Some (FlattenStringSlice (NotActions (expandPermission enum b))),
           data_actions = NewSet (FlattenStringSlice (DataActions (expandPermission enum b))),
           not_data_actions = NewSet (FlattenStringSlice (NotDataActions (expandPermission enum b))) \<rparr>
         = b"
      using assms(1) by (intro flatten_expand_block) simp_all
    moreover have "map (\<lambda>p. \<lparr> actions = map Some (FlattenStringSlice (Actions p)),
                   not_actions = map Some (FlattenStringSlice (NotActions p)),
                   data_actions = NewSet (FlattenStringSlice (DataActions p)),
                   not_data_actions = NewSet (FlattenStringSlice (NotDataActions p)) \<rparr>)
          (map (expandPermission enum) bs) = bs"
      using Cons.IH Cons.prems by simp
    ultimately show ?case by simp
  qed
  then show ?thesis
    by (simp add: flattenRoleDefinitionPermissions_def expandRoleDefinitionPermissions_def
          expandPermissionsLoop_eq flattenPermissionsLoop_eq)
qed

theorem permissions_expand_flatten_roundtrip_witness:
  "(\<forall>S. fset_of_list (sorted_list_of_fset S) = (S :: string fset))
   \<and> None \<notin> set (actions sampleBlock) \<and> None \<notin> set (not_actions sampleBlock)
   \<and> flattenRoleDefinitionPermissions
         (Some (expandRoleDefinitionPermissions sorted_list_of_fset (map Some [sampleBlock])))
       = [sampleBlock]"
proof -
  have h1: "\<And>S. fset_of_list (sorted_list_of_fset S) = (S :: string fset)" by simp
  have h2: "None \<notin> set (actions sampleBlock) \<and> None \<notin> set (not_actions sampleBlock)"
    by (simp add: sampleBlock_def)
  then have h3: "\<And>b. b \<in> set [sampleBlock] \<Longrightarrow> None \<notin> set (actions b) \<and> None \<notin> set (not_actions b)"
    by simp
  show ?thesis
    using h1 h2 permissions_expand_flatten_roundtrip [of sorted_list_of_fset "[sampleBlock]", OF h1 h3]
    by blast
qed

section \<open>Properties of the observation of the convergence poll\<close>

lemma clientGet_eq:
  "rcGet client (remote w) scope roleId = (res, r')
   \<Longrightarrow> clientGet client scope roleId w = (res, \<lparr> remote = r', calls = calls w @ [CallGet scope roleId] \<rparr>)"
  by (simp add: clientGet_def)

text \<open>
  C1. When the fetch succeeds and the object has properties and both timestamps, the
  observation is Pending if createdOn is the expected marker, else Pending if updatedOn
  differs from the marker, else Updated; no error is returned.
\<close>

theorem refresh_state_of_timestamps:
  assumes "rcGet client (remote w) (Scope rid) (RoleID rid) = ((resp, None), r')"
    and "RoleDefinitionProperties resp = Some props"
    and "CreatedOn props = Some createdOn"
    and "UpdatedOn props = Some updatedOn"
  shows "fst (roleDefinitionEventualConsistencyUpdate client rid expected w) =
           Return (resp,
                   (if createdOn = expected then ''Pending''
                    else if updatedOn \<noteq> expected then ''Pending''
                    else ''Updated''),
                   None)"
  using assms
  by (simp add: roleDefinitionEventualConsistencyUpdate_def clientGet_eq)

theorem refresh_state_of_timestamps_witness:
  "rcGet (replayClient (\<lambda>n. observed (Some ''t0'') (Some ''t1''))) (remote startWorld)
       (Scope sampleId) (RoleID sampleId)
     = (observed (Some ''t0'') (Some ''t1''), Suc 0)
   \<and> fst (roleDefinitionEventualConsistencyUpdate
            (replayClient (\<lambda>n. observed (Some ''t0'') (Some ''t1''))) sampleId ''t1'' startWorld)
     = Return (fst (observed (Some ''t0'') (Some ''t1'')), ''Updated'', None)"
proof -
  have g: "rcGet (replayClient (\<lambda>n. observed (Some ''t0'') (Some ''t1''))) (remote startWorld)
       (Scope sampleId) (RoleID sampleId)
     = ((fst (observed (Some ''t0'') (Some ''t1'')), None), Suc 0)"
    by (simp add: replayClient_def observed_def startWorld_def)
  have p: "RoleDefinitionProperties (fst (observed (Some ''t0'') (Some ''t1''))) =
      Some \<lparr> RoleName = None, Description = None, RoleType = None, Permissions = None,
            AssignableScopes = None, CreatedOn = Some ''t0'', UpdatedOn = Some ''t1'' \<rparr>"
    by (simp add: observed_def)
  show ?thesis
    using refresh_state_of_timestamps [OF g p, of "''t0''" "''t1''" "''t1''"] g
    by (simp add: observed_def)
qed

lemma refresh_fetch_error:
  "rcGet client (remote w) (Scope rid) (RoleID rid) = ((resp, Some e), r')
   \<Longrightarrow> fst (roleDefinitionEventualConsistencyUpdate client rid expected w)
         = Return (resp, ''Failed'', Some e)"
  by (simp add: roleDefinitionEventualConsistencyUpdate_def clientGet_eq)

lemma refresh_properties_nil:
  "rcGet client (remote w) (Scope rid) (RoleID rid) = ((resp, None), r')
   \<Longrightarrow> RoleDefinitionProperties resp = None
   \<Longrightarrow> fst (roleDefinitionEventualConsistencyUpdate client rid expected w)
         = Return (resp, ''Failed'', Some (Errorf ''`properties` was nil'' []))"
  by (simp add: roleDefinitionEventualConsistencyUpdate_def clientGet_eq)

lemma refresh_createdOn_nil:
  "rcGet client (remote w) (Scope rid) (RoleID rid) = ((resp, None), r')
   \<Longrightarrow> RoleDefinitionProperties resp = Some props
   \<Longrightarrow> CreatedOn props = None
   \<Longrightarrow> fst (roleDefinitionEventualConsistencyUpdate client rid expected w)
         = Return (resp, ''Failed'', Some (Errorf ''`properties.CreatedOn` was nil'' []))"
  by (simp add: roleDefinitionEventualConsistencyUpdate_def clientGet_eq)

text \<open>
  C2. The observation checks the fetch error, the properties and createdOn, and then
  dereferences updatedOn unchecked: with createdOn present and updatedOn absent it
  panics instead of returning an error, whatever the other values are.
\<close>

theorem refresh_updatedOn_nil_crashes:
  "fst (roleDefinitionEventualConsistencyUpdate
          (replayClient (\<lambda>n. observed (Some createdOn) None)) rid expected w) = Crash"
  by (simp add: roleDefinitionEventualConsistencyUpdate_def clientGet_def replayClient_def
        observed_def)

section \<open>Properties of the convergence poll\<close>

declare pollLoop.simps [simp del]

lemma refresh_replay_pending:
  assumes "obs n = (resp, None)"
    and "RoleDefinitionProperties resp = Some props"
    and "CreatedOn props = Some expected"
    and "UpdatedOn props = Some updatedOn"
  shows "roleDefinitionEventualConsistencyUpdate (replayClient obs) rid expected
           \<lparr> remote = n, calls = cs \<rparr>
         = (Return (resp, ''Pending'', None),
            \<lparr> remote = Suc n, calls = cs @ [CallGet (Scope rid) (RoleID rid)] \<rparr>)"
  using assms
  by (simp add: roleDefinitionEventualConsistencyUpdate_def clientGet_def replayClient_def)

lemma refresh_replay_updated:
  assumes "obs n = (resp, None)"
    and "RoleDefinitionProperties resp = Some props"
    and "CreatedOn props = Some createdOn"
    and "createdOn \<noteq> expected"
    and "UpdatedOn props = Some expected"
  shows "roleDefinitionEventualConsistencyUpdate (replayClient obs) rid expected
           \<lparr> remote = n, calls = cs \<rparr>
         = (Return (resp, ''Updated'', None),
            \<lparr> remote = Suc n, calls = cs @ [CallGet (Scope rid) (RoleID rid)] \<rparr>)"
  using assms
  by (simp add: roleDefinitionEventualConsistencyUpdate_def clientGet_def replayClient_def)

lemma updateStateConf_fields:
  "ContinuousTargetOccurence (updateStateConf client d rid expected) = 5"
  "Delay (updateStateConf client d rid expected) = 10"
  "MinTimeout (updateStateConf client d rid expected) = 10"
  "Pending (updateStateConf client d rid expected) = [''Pending'']"
  "Target (updateStateConf client d rid expected) = [''Updated'']"
  "Timeout (updateStateConf client d rid expected) = rd_TimeoutUpdate d"
  by (simp_all add: updateStateConf_def)

lemma poll_deadline_passed:
  "rd_TimeoutUpdate d < clock
   \<Longrightarrow> pollLoop (updateStateConf client d rid expected) clock occ w = (Return (Some TimeoutError), w)"
  by (subst pollLoop.simps) (simp add: updateStateConf_fields)

lemma poll_step_pending:
  assumes "clock \<le> rd_TimeoutUpdate d"
    and "Refresh (updateStateConf client d rid expected) w = (Return (resp, ''Pending'', None), w1)"
  shows "pollLoop (updateStateConf client d rid expected) clock occ w
         = pollLoop (updateStateConf client d rid expected) (clock + 10) 0 w1"
  using assms by (subst pollLoop.simps) (simp add: updateStateConf_fields)

lemma poll_step_updated:
  assumes "clock \<le> rd_TimeoutUpdate d"
    and "Refresh (updateStateConf client d rid expected) w = (Return (resp, ''Updated'', None), w1)"
  shows "pollLoop (updateStateConf client d rid expected) clock occ w
         = (if 5 \<le> Suc occ then (Return None, w1)
            else pollLoop (updateStateConf client d rid expected) (clock + 10) (Suc occ) w1)"
  using assms by (subst pollLoop.simps) (simp add: updateStateConf_fields)

lemma updateStateConf_Refresh:
  "Refresh (updateStateConf client d rid expected)
   = roleDefinitionEventualConsistencyUpdate client rid expected"
  by (simp add: updateStateConf_def)

text \<open>
  From an observation on, every observation is Updated: the poll succeeds after the
  observations still missing to five in a row, if the deadline allows them.
\<close>

lemma poll_updated_phase:
  assumes upd: "\<And>i. n0 \<le> i \<Longrightarrow> \<exists>resp props createdOn. obs i = (resp, None)
                  \<and> RoleDefinitionProperties resp = Some props
                  \<and> CreatedOn props = Some createdOn \<and> createdOn \<noteq> expected
                  \<and> UpdatedOn props = Some expected"
  shows "n0 \<le> n \<Longrightarrow> occ + m = 4 \<Longrightarrow>
         pollLoop (updateStateConf (replayClient obs) d rid expected) clock occ
           \<lparr> remote = n, calls = cs \<rparr>
         = (if clock + 10 * m \<le> rd_TimeoutUpdate d
            then (Return None,
                  \<lparr> remote = n + Suc m,
                    calls = cs @ replicate (Suc m) (CallGet (Scope rid) (RoleID rid)) \<rparr>)
            else pollLoop (updateStateConf (replayClient obs) d rid expected) clock occ
                   \<lparr> remote = n, calls = cs \<rparr>)"
proof (induction m arbitrary: n occ clock cs)
  case 0
  from upd [OF 0(1)] obtain resp props createdOn where
    o: "obs n = (resp, None)" "RoleDefinitionProperties resp = Some props"
       "CreatedOn props = Some createdOn" "createdOn \<noteq> expected" "UpdatedOn props = Some expected"
    by blast
  have r: "Refresh (updateStateConf (replayClient obs) d rid expected) \<lparr> remote = n, calls = cs \<rparr>
        = (Return (resp, ''Updated'', None),
           \<lparr> remote = Suc n, calls = cs @ [CallGet (Scope rid) (RoleID rid)] \<rparr>)"
    by (simp add: updateStateConf_Refresh refresh_replay_updated [where obs = obs and n = n, OF o])
  show ?case
  proof (cases "clock \<le> rd_TimeoutUpdate d")
    case True
    from poll_step_updated [OF True r, of occ] 0(2) True show ?thesis by simp
  next
    case False
    then show ?thesis by simp
  qed
next
  case (Suc m)
  from upd [OF Suc.prems(1)] obtain resp props createdOn where
    o: "obs n = (resp, None)" "RoleDefinitionProperties resp = Some props"
       "CreatedOn props = Some createdOn" "createdOn \<noteq> expected" "UpdatedOn props = Some expected"
    by blast
  have r: "Refresh (updateStateConf (replayClient obs) d rid expected) \<lparr> remote = n, calls = cs \<rparr>
        = (Return (resp, ''Updated'', None),
           \<lparr> remote = Suc n, calls = cs @ [CallGet (Scope rid) (RoleID rid)] \<rparr>)"
    by (simp add: updateStateConf_Refresh refresh_replay_updated [where obs = obs and n = n, OF o])
  show ?case
  proof (cases "clock + 10 * Suc m \<le> rd_TimeoutUpdate d")
    case True
    then have c: "clock \<le> rd_TimeoutUpdate d" and c': "(clock + 10) + 10 * m \<le> rd_TimeoutUpdate d"
      by simp_all
    have n': "n0 \<le> Suc n" and occ': "Suc occ + m = 4" using Suc.prems by simp_all
    have "pollLoop (updateStateConf (replayClient obs) d rid expected) clock occ
            \<lparr> remote = n, calls = cs \<rparr>
          = pollLoop (updateStateConf (replayClient obs) d rid expected) (clock + 10) (Suc occ)
              \<lparr> remote = Suc n, calls = cs @ [CallGet (Scope rid) (RoleID rid)] \<rparr>"
      using poll_step_updated [OF c r, of occ] Suc.prems(2) by simp
    also have "\<dots> = (Return None,
                  \<lparr> remote = Suc n + Suc m,
                    calls = (cs @ [CallGet (Scope rid) (RoleID rid)])
                            @ replicate (Suc m) (CallGet (Scope rid) (RoleID rid)) \<rparr>)"
      using Suc.IH [OF n' occ', of "clock + 10" "cs @ [CallGet (Scope rid) (RoleID rid)]"] c'
      by simp
    finally show ?thesis using True by (simp add: replicate_app_Cons_same)
  next
    case False
    then show ?thesis by simp
  qed
qed

lemma poll_updated_phase_timeout:
  assumes upd: "\<And>i. n0 \<le> i \<Longrightarrow> \<exists>resp props createdOn. obs i = (resp, None)
                  \<and> RoleDefinitionProperties resp = Some props
                  \<and> CreatedOn props = Some createdOn \<and> createdOn \<noteq> expected
                  \<and> UpdatedOn props = Some expected"
  shows "n0 \<le> n \<Longrightarrow> occ + m = 4 \<Longrightarrow> rd_TimeoutUpdate d < clock + 10 * m \<Longrightarrow>
         fst (pollLoop (updateStateConf (replayClient obs) d rid expected) clock occ
                \<lparr> remote = n, calls = cs \<rparr>) = Return (Some TimeoutError)"
proof (induction m arbitrary: n occ clock cs)
  case 0
  then show ?case by (simp add: poll_deadline_passed)
next
  case (Suc m)
  show ?case
  proof (cases "rd_TimeoutUpdate d < clock")
    case True
    then show ?thesis by (simp add: poll_deadline_passed)
  next
    case False
    then have c: "clock \<le> rd_TimeoutUpdate d" by simp
    from upd [OF Suc.prems(1)] obtain resp props createdOn where
      o: "obs n = (resp, None)" "RoleDefinitionProperties resp = Some props"
         "CreatedOn props = Some createdOn" "createdOn \<noteq> expected" "UpdatedOn props = Some expected"
      by blast
    have r: "Refresh (updateStateConf (replayClient obs) d rid expected) \<lparr> remote = n, calls = cs \<rparr>
          = (Return (resp, ''Updated'', None),
             \<lparr> remote = Suc n, calls = cs @ [CallGet (Scope rid) (RoleID rid)] \<rparr>)"
      by (simp add: updateStateConf_Refresh refresh_replay_updated [where obs = obs and n = n, OF o])
    have n': "n0 \<le> Suc n" and occ': "Suc occ + m = 4"
      and t': "rd_TimeoutUpdate d < (clock + 10) + 10 * m"
      using Suc.prems by simp_all
    have "pollLoop (updateStateConf (replayClient obs) d rid expected) clock occ
            \<lparr> remote = n, calls = cs \<rparr>
          = pollLoop (updateStateConf (replayClient obs) d rid expected) (clock + 10) (Suc occ)
              \<lparr> remote = Suc n, calls = cs @ [CallGet (Scope rid) (RoleID rid)] \<rparr>"
      using poll_step_updated [OF c r, of occ] Suc.prems(2) by simp
    then show ?thesis using Suc.IH [OF n' occ' t'] by simp
  qed
qed

text \<open>
  \<open>k\<close> pending observations first, then Updated for good: success comes with observation
  \<open>k + 5\<close>, when the deadline allows it, and a timeout otherwise.
\<close>

lemma poll_pending_phase:
  assumes pend: "\<And>i. i < N \<Longrightarrow> \<exists>resp props updatedOn. obs i = (resp, None)
                  \<and> RoleDefinitionProperties resp = Some props
                  \<and> CreatedOn props = Some expected \<and> UpdatedOn props = Some updatedOn"
    and upd: "\<And>i. N \<le> i \<Longrightarrow> \<exists>resp props createdOn. obs i = (resp, None)
                  \<and> RoleDefinitionProperties resp = Some props
                  \<and> CreatedOn props = Some createdOn \<and> createdOn \<noteq> expected
                  \<and> UpdatedOn props = Some expected"
  shows "n + k = N \<Longrightarrow> k = 0 \<longrightarrow> occ = 0 \<Longrightarrow> clock + 10 * k + 40 \<le> rd_TimeoutUpdate d \<Longrightarrow>
         pollLoop (updateStateConf (replayClient obs) d rid expected) clock occ
           \<lparr> remote = n, calls = cs \<rparr>
         = (Return None,
            \<lparr> remote = n + k + 5,
              calls = cs @ replicate (k + 5) (CallGet (Scope rid) (RoleID rid)) \<rparr>)"
proof (induction k arbitrary: n occ clock cs)
  case 0
  then have "N \<le> n" "occ + 4 = 4" "clock + 10 * 4 \<le> rd_TimeoutUpdate d" by simp_all
  from poll_updated_phase [of N obs expected n occ 4 d rid clock cs, OF upd this(1,2)] this(3)
  show ?case by (simp add: numeral_eq_Suc)
next
  case (Suc k)
  then have "n < N" by simp
  from pend [OF this] obtain resp props updatedOn where
    o: "obs n = (resp, None)" "RoleDefinitionProperties resp = Some props"
       "CreatedOn props = Some expected" "UpdatedOn props = Some updatedOn"
    by blast
  have r: "Refresh (updateStateConf (replayClient obs) d rid expected) \<lparr> remote = n, calls = cs \<rparr>
        = (Return (resp, ''Pending'', None),
           \<lparr> remote = Suc n, calls = cs @ [CallGet (Scope rid) (RoleID rid)] \<rparr>)"
    by (simp add: updateStateConf_Refresh refresh_replay_pending [where obs = obs and n = n, OF o])
  have c: "clock \<le> rd_TimeoutUpdate d" using Suc.prems(3) by simp
  have n': "Suc n + k = N" and z: "k = 0 \<longrightarrow> (0::nat) = 0"
    and t': "(clock + 10) + 10 * k + 40 \<le> rd_TimeoutUpdate d"
    using Suc.prems by simp_all
  have "pollLoop (updateStateConf (replayClient obs) d rid expected) clock occ
          \<lparr> remote = n, calls = cs \<rparr>
        = pollLoop (updateStateConf (replayClient obs) d rid expected) (clock + 10) 0
            \<lparr> remote = Suc n, calls = cs @ [CallGet (Scope rid) (RoleID rid)] \<rparr>"
    by (rule poll_step_pending [OF c r])
  also have "\<dots> = (Return None,
            \<lparr> remote = Suc n + k + 5,
              calls = (cs @ [CallGet (Scope rid) (RoleID rid)])
                      @ replicate (k + 5) (CallGet (Scope rid) (RoleID rid)) \<rparr>)"
    by (rule Suc.IH [OF n' z t'])
  also have "(cs @ [CallGet (Scope rid) (RoleID rid)])
               @ replicate (k + 5) (CallGet (Scope rid) (RoleID rid))
             = cs @ replicate (Suc (k + 5)) (CallGet (Scope rid) (RoleID rid))"
    by (simp only: replicate_Suc append_assoc append_Cons append_Nil)
  also have "Suc (k + 5) = Suc k + 5" by simp
  also have "Suc n + k + 5 = n + Suc k + 5" by simp
  finally show ?case .
qed

lemma poll_pending_phase_timeout:
  assumes pend: "\<And>i. i < N \<Longrightarrow> \<exists>resp props updatedOn. obs i = (resp, None)
                  \<and> RoleDefinitionProperties resp = Some props
                  \<and> CreatedOn props = Some expected \<and> UpdatedOn props = Some updatedOn"
    and upd: "\<And>i. N \<le> i \<Longrightarrow> \<exists>resp props createdOn. obs i = (resp, None)
                  \<and> RoleDefinitionProperties resp = Some props
                  \<and> CreatedOn props = Some createdOn \<and> createdOn \<noteq> expected
                  \<and> UpdatedOn props = Some expected"
  shows "n + k = N \<Longrightarrow> k = 0 \<longrightarrow> occ = 0 \<Longrightarrow> rd_TimeoutUpdate d < clock + 10 * k + 40 \<Longrightarrow>
         fst (pollLoop (updateStateConf (replayClient obs) d rid expected) clock occ
                \<lparr> remote = n, calls = cs \<rparr>) = Return (Some TimeoutError)"
proof (induction k arbitrary: n occ clock cs)
  case 0
  then have "N \<le> n" "occ + 4 = 4" "rd_TimeoutUpdate d < clock + 10 * 4" by simp_all
  from poll_updated_phase_timeout [of N obs expected n occ 4 d clock rid cs, OF upd this]
  show ?case .
next
  case (Suc k)
  show ?case
  proof (cases "rd_TimeoutUpdate d < clock")
    case True
    then show ?thesis by (simp add: poll_deadline_passed)
  next
    case False
    then have c: "clock \<le> rd_TimeoutUpdate d" by simp
    from Suc.prems have "n < N" by simp
    from pend [OF this] obtain resp props updatedOn where
      o: "obs n = (resp, None)" "RoleDefinitionProperties resp = Some props"
         "CreatedOn props = Some expected" "UpdatedOn props = Some updatedOn"
      by blast
    have r: "Refresh (updateStateConf (replayClient obs) d rid expected) \<lparr> remote = n, calls = cs \<rparr>
          = (Return (resp, ''Pending'', None),
             \<lparr> remote = Suc n, calls = cs @ [CallGet (Scope rid) (RoleID rid)] \<rparr>)"
      by (simp add: updateStateConf_Refresh refresh_replay_pending [where obs = obs and n = n, OF o])
    have n': "Suc n + k = N" and z: "k = 0 \<longrightarrow> (0::nat) = 0"
      and t': "rd_TimeoutUpdate d < (clock + 10) + 10 * k + 40"
      using Suc.prems by simp_all
    have "pollLoop (updateStateConf (replayClient obs) d rid expected) clock occ
            \<lparr> remote = n, calls = cs \<rparr>
          = pollLoop (updateStateConf (replayClient obs) d rid expected) (clock + 10) 0
              \<lparr> remote = Suc n, calls = cs @ [CallGet (Scope rid) (RoleID rid)] \<rparr>"
      by (rule poll_step_pending [OF c r])
    then show ?thesis using Suc.IH [OF n' z t'] by simp
  qed
qed

text \<open>
  Whatever the mocked reads are: when the poll of Update declares success, it has made
  at least five observations and the last five were Updated, one after the other.
\<close>

lemma refresh_replay_world:
  "snd (roleDefinitionEventualConsistencyUpdate (replayClient obs) rid expected
          \<lparr> remote = n, calls = cs \<rparr>)
   = \<lparr> remote = Suc n, calls = cs @ [CallGet (Scope rid) (RoleID rid)] \<rparr>"
  by (simp add: roleDefinitionEventualConsistencyUpdate_def clientGet_def replayClient_def
        split: prod.splits option.splits)

lemma refresh_replay_result:
  "fst (roleDefinitionEventualConsistencyUpdate (replayClient obs) rid expected
          \<lparr> remote = n, calls = cs \<rparr>)
   = fst (roleDefinitionEventualConsistencyUpdate (replayClient obs) rid expected
          \<lparr> remote = n, calls = [] \<rparr>)"
  by (simp add: roleDefinitionEventualConsistencyUpdate_def clientGet_def replayClient_def
        split: prod.splits option.splits)

lemma refresh_states:
  "fst (roleDefinitionEventualConsistencyUpdate client rid expected w) = Return (resp, st, None)
   \<Longrightarrow> st = ''Pending'' \<or> st = ''Updated''"
  by (auto simp add: roleDefinitionEventualConsistencyUpdate_def Let_def
        split: prod.splits option.splits if_splits)

lemma poll_step_crash:
  assumes "clock \<le> rd_TimeoutUpdate d"
    and "Refresh (updateStateConf client d rid expected) w = (Crash, w1)"
  shows "pollLoop (updateStateConf client d rid expected) clock occ w = (Crash, w1)"
  using assms by (subst pollLoop.simps) (simp add: updateStateConf_fields)

lemma poll_step_error:
  assumes "clock \<le> rd_TimeoutUpdate d"
    and "Refresh (updateStateConf client d rid expected) w = (Return (resp, st, Some e), w1)"
  shows "pollLoop (updateStateConf client d rid expected) clock occ w = (Return (Some e), w1)"
  using assms by (subst pollLoop.simps) (simp add: updateStateConf_fields)

lemma poll_success_needs_five_updated:
  assumes "pollLoop (updateStateConf (replayClient obs) d rid expected) clock occ
             \<lparr> remote = n, calls = cs \<rparr> = (Return None, w')"
    and "occ \<le> n"
    and "\<And>j. n - occ \<le> j \<Longrightarrow> j < n \<Longrightarrow>
           (\<exists>resp. fst (roleDefinitionEventualConsistencyUpdate (replayClient obs) rid expected
                     \<lparr> remote = j, calls = [] \<rparr>) = Return (resp, ''Updated'', None))"
  shows "5 \<le> remote w' \<and>
         (\<forall>j. remote w' - 5 \<le> j \<and> j < remote w' \<longrightarrow>
           (\<exists>resp. fst (roleDefinitionEventualConsistencyUpdate (replayClient obs) rid expected
                     \<lparr> remote = j, calls = [] \<rparr>) = Return (resp, ''Updated'', None)))"
  using assms
proof (induction "Suc (rd_TimeoutUpdate d) - clock" arbitrary: clock occ n cs rule: less_induct)
  case less
  let ?conf = "updateStateConf (replayClient obs) d rid expected"
  let ?w = "\<lparr> remote = n, calls = cs \<rparr> :: nat world"
  let ?w1 = "\<lparr> remote = Suc n, calls = cs @ [CallGet (Scope rid) (RoleID rid)] \<rparr> :: nat world"
  have c: "clock \<le> rd_TimeoutUpdate d"
  proof (rule ccontr)
    assume "\<not> clock \<le> rd_TimeoutUpdate d"
    then have "rd_TimeoutUpdate d < clock" by simp
    from poll_deadline_passed [OF this, of "replayClient obs" rid expected occ "\<lparr> remote = n, calls = cs \<rparr>"]
      less.prems(1) show False by simp
  qed
  obtain x where x: "Refresh ?conf ?w = (x, ?w1)"
    using refresh_replay_world [of obs rid expected n cs]
    by (cases "Refresh ?conf ?w") (simp add: updateStateConf_Refresh)
  show ?case
  proof (cases x)
    case Crash
    with x have "Refresh ?conf ?w = (Crash, ?w1)" by simp
    from poll_step_crash [OF c this, of occ] less.prems(1) show ?thesis by simp
  next
    case (Return t)
    obtain resp st err where t: "t = (resp, st, err)" by (cases t) auto
    show ?thesis
    proof (cases err)
      case (Some e)
      with x Return t have "Refresh ?conf ?w = (Return (resp, st, Some e), ?w1)" by simp
      from poll_step_error [OF c this, of occ] less.prems(1) show ?thesis by simp
    next
      case None
      have fx: "fst (roleDefinitionEventualConsistencyUpdate (replayClient obs) rid expected ?w)
                = Return (resp, st, None)"
        using x Return t None by (simp add: updateStateConf_Refresh)
      from refresh_states [OF fx] have "st = ''Pending'' \<or> st = ''Updated''" .
      then show ?thesis
      proof
        assume p: "st = ''Pending''"
        have r: "Refresh ?conf ?w = (Return (resp, ''Pending'', None), ?w1)"
          using x Return t None p by simp
        have step: "pollLoop ?conf (clock + 10) 0 ?w1 = (Return None, w')"
          using poll_step_pending [OF c r, of occ] less.prems(1) by simp
        have m: "Suc (rd_TimeoutUpdate d) - (clock + 10) < Suc (rd_TimeoutUpdate d) - clock"
          using c by simp
        show ?thesis
          by (rule less.hyps [OF m step]) simp_all
      next
        assume u: "st = ''Updated''"
        have r: "Refresh ?conf ?w = (Return (resp, ''Updated'', None), ?w1)"
          using x Return t None u by simp
        have here: "\<exists>resp. fst (roleDefinitionEventualConsistencyUpdate (replayClient obs) rid expected
                     \<lparr> remote = n, calls = [] \<rparr>) = Return (resp, ''Updated'', None)"
          using fx u refresh_replay_result [of obs rid expected n cs] by auto
        have inv: "\<And>j. Suc n - Suc occ \<le> j \<Longrightarrow> j < Suc n \<Longrightarrow>
           (\<exists>resp. fst (roleDefinitionEventualConsistencyUpdate (replayClient obs) rid expected
                     \<lparr> remote = j, calls = [] \<rparr>) = Return (resp, ''Updated'', None))"
        proof -
          fix j assume a: "Suc n - Suc occ \<le> j" "j < Suc n"
          show "\<exists>resp. fst (roleDefinitionEventualConsistencyUpdate (replayClient obs) rid expected
                     \<lparr> remote = j, calls = [] \<rparr>) = Return (resp, ''Updated'', None)"
          proof (cases "j = n")
            case True
            with here show ?thesis by simp
          next
            case False
            with a have "n - occ \<le> j" "j < n" by simp_all
            then show ?thesis by (rule less.prems(3))
          qed
        qed
        show ?thesis
        proof (cases "5 \<le> Suc occ")
          case True
          have w': "w' = ?w1"
            using poll_step_updated [OF c r, of occ] less.prems(1) True by simp
          have "5 \<le> Suc n" using True less.prems(2) by simp
          moreover have "\<And>j. Suc n - 5 \<le> j \<Longrightarrow> j < Suc n \<Longrightarrow> Suc n - Suc occ \<le> j"
            using True by simp
          ultimately show ?thesis using inv w' by auto
        next
          case False
          have step: "pollLoop ?conf (clock + 10) (Suc occ) ?w1 = (Return None, w')"
            using poll_step_updated [OF c r, of occ] less.prems(1) False by simp
          have m: "Suc (rd_TimeoutUpdate d) - (clock + 10) < Suc (rd_TimeoutUpdate d) - clock"
            using c by simp
          have o: "Suc occ \<le> Suc n" using less.prems(2) by simp
          show ?thesis
            by (rule less.hyps [OF m step o]) (rule inv)
        qed
      qed
    qed
  qed
qed

lemma update_poll_success_needs_five_updated:
  assumes "WaitForState (updateStateConf (replayClient obs) d rid expected)
             \<lparr> remote = 0, calls = cs \<rparr> = (Return None, w')"
  shows "5 \<le> remote w' \<and>
         (\<forall>j. remote w' - 5 \<le> j \<and> j < remote w' \<longrightarrow>
           (\<exists>resp. fst (roleDefinitionEventualConsistencyUpdate (replayClient obs) rid expected
                     \<lparr> remote = j, calls = [] \<rparr>) = Return (resp, ''Updated'', None)))"
proof (rule poll_success_needs_five_updated)
  show "pollLoop (updateStateConf (replayClient obs) d rid expected) 10 0
          \<lparr> remote = 0, calls = cs \<rparr> = (Return None, w')"
    using assms by (simp add: WaitForState_def updateStateConf_fields)
qed simp_all

text \<open>
  C3. The mocked reads show createdOn equal to the expected marker for the first \<open>N\<close>
  observations, and from observation \<open>N + 1\<close> on a different createdOn and the expected
  updatedOn. The poll of Update (one observation every 10 seconds from second 10 on,
  bounded by the update timeout) then makes exactly \<open>N + 5\<close> observations and declares
  success with the fifth Updated observation in a row, not with the first; when the
  timeout does not leave room for \<open>N + 5\<close> observations it ends in a timeout error.
\<close>

theorem update_poll_succeeds_after_five_updated:
  assumes "\<And>i. i < N \<Longrightarrow> \<exists>resp props updatedOn. obs i = (resp, None)
                  \<and> RoleDefinitionProperties resp = Some props
                  \<and> CreatedOn props = Some expected \<and> UpdatedOn props = Some updatedOn"
    and "\<And>i. N \<le> i \<Longrightarrow> \<exists>resp props createdOn. obs i = (resp, None)
                  \<and> RoleDefinitionProperties resp = Some props
                  \<and> CreatedOn props = Some createdOn \<and> createdOn \<noteq> expected
                  \<and> UpdatedOn props = Some expected"
  shows "(10 * (N + 5) \<le> rd_TimeoutUpdate d \<longrightarrow>
            WaitForState (updateStateConf (replayClient obs) d rid expected)
              \<lparr> remote = 0, calls = [] \<rparr>
            = (Return None,
               \<lparr> remote = N + 5, calls = replicate (N + 5) (CallGet (Scope rid) (RoleID rid)) \<rparr>))
       \<and> (rd_TimeoutUpdate d < 10 * (N + 5) \<longrightarrow>
            fst (WaitForState (updateStateConf (replayClient obs) d rid expected)
                   \<lparr> remote = 0, calls = [] \<rparr>)
            = Return (Some TimeoutError))"
proof (intro conjI impI)
  assume "10 * (N + 5) \<le> rd_TimeoutUpdate d"
  then have t: "10 + 10 * N + 40 \<le> rd_TimeoutUpdate d" by simp
  have z: "N = 0 \<longrightarrow> (0::nat) = 0" by simp
  have n: "0 + N = N" by simp
  from poll_pending_phase [of N obs expected 0 N 0 10 d rid "[]", OF assms n z t]
  show "WaitForState (updateStateConf (replayClient obs) d rid expected)
              \<lparr> remote = 0, calls = [] \<rparr>
            = (Return None,
               \<lparr> remote = N + 5, calls = replicate (N + 5) (CallGet (Scope rid) (RoleID rid)) \<rparr>)"
    by (simp add: WaitForState_def updateStateConf_fields)
next
  assume "rd_TimeoutUpdate d < 10 * (N + 5)"
  then have t: "rd_TimeoutUpdate d < 10 + 10 * N + 40" by simp
  have z: "N = 0 \<longrightarrow> (0::nat) = 0" by simp
  have n: "0 + N = N" by simp
  from poll_pending_phase_timeout [of N obs expected 0 N 0 d 10 rid "[]", OF assms n z t]
  show "fst (WaitForState (updateStateConf (replayClient obs) d rid expected)
                   \<lparr> remote = 0, calls = [] \<rparr>)
            = Return (Some TimeoutError)"
    by (simp add: WaitForState_def updateStateConf_fields)
qed

theorem update_poll_succeeds_after_five_updated_witness:
  "WaitForState (updateStateConf (replayClient sampleObs) sampleData sampleId ''t1'')
     \<lparr> remote = 0, calls = [] \<rparr>
   = (Return None,
      \<lparr> remote = 7, calls = replicate 7 (CallGet (Scope sampleId) (RoleID sampleId)) \<rparr>)
   \<and> fst (WaitForState
            (updateStateConf (replayClient sampleObs) (sampleData\<lparr> rd_TimeoutUpdate := 60 \<rparr>)
               sampleId ''t1'')
            \<lparr> remote = 0, calls = [] \<rparr>)
     = Return (Some TimeoutError)"
proof -
  have pend: "\<And>i. i < 2 \<Longrightarrow> \<exists>resp props updatedOn. sampleObs i = (resp, None)
                  \<and> RoleDefinitionProperties resp = Some props
                  \<and> CreatedOn props = Some ''t1'' \<and> UpdatedOn props = Some updatedOn"
    by (simp add: sampleObs_def observed_def)
  have upd: "\<And>i. 2 \<le> i \<Longrightarrow> \<exists>resp props createdOn. sampleObs i = (resp, None)
                  \<and> RoleDefinitionProperties resp = Some props
                  \<and> CreatedOn props = Some createdOn \<and> createdOn \<noteq> ''t1''
                  \<and> UpdatedOn props = Some ''t1''"
    by (simp add: sampleObs_def observed_def)
  have t: "10 * (2 + 5) \<le> rd_TimeoutUpdate sampleData"
    and t': "rd_TimeoutUpdate (sampleData\<lparr> rd_TimeoutUpdate := 60 \<rparr>) < 10 * (2 + 5)"
    by (simp_all add: sampleData_def)
  from update_poll_succeeds_after_five_updated [of 2 sampleObs "''t1''" sampleData sampleId,
         OF pend upd] t
       update_poll_succeeds_after_five_updated
         [of 2 sampleObs "''t1''" "sampleData\<lparr> rd_TimeoutUpdate := 60 \<rparr>" sampleId, OF pend upd] t'
  show ?thesis by simp
qed

section \<open>Properties of the Role Definition handlers\<close>

lemma clientCreateOrUpdate_eq:
  "rcCreateOrUpdate client (remote w) scope roleId properties = (res, r')
   \<Longrightarrow> clientCreateOrUpdate client scope roleId properties w
       = (res, \<lparr> remote = r', calls = calls w @ [CallCreateOrUpdate scope roleId properties] \<rparr>)"
  by (simp add: clientCreateOrUpdate_def)

lemma clientDelete_eq:
  "rcDelete client (remote w) scope roleId = (res, r')
   \<Longrightarrow> clientDelete client scope roleId w
       = (res, \<lparr> remote = r', calls = calls w @ [CallDelete scope roleId] \<rparr>)"
  by (simp add: clientDelete_def)

text \<open>
  C6. Create of a new resource whose pre-existence fetch returns an object with a
  non-empty identifier fails with the import error that names \<open>id|scope\<close>, and the only
  API call issued is that fetch: no upsert. The fetch is reached when the role id is
  there and the expansion of the assignable scopes on line 153 has returned.
\<close>

theorem create_existing_fails_before_upsert:
  assumes "rd_IsNewResource d"
    and "createRoleDefinitionId env d = Inr roleId"
    and "expandRoleDefinitionAssignableScopes d = Return assignableScopes"
    and "rcGet client (remote w) (rd_scope d) roleId = ((existing, None), r')"
    and "ID existing = Some existingID"
    and "existingID \<noteq> []"
  shows "resourceArmRoleDefinitionCreate env client d w =
           (Return (Some (ImportAsExistsError ''azurerm_role_definition''
                            (existingID @ ''|'' @ rd_scope d))),
            d,
            \<lparr> remote = r', calls = calls w @ [CallGet (rd_scope d) roleId] \<rparr>)"
proof -
  have "createCheckExisting client d roleId w =
          (Some (ImportAsExistsError ''azurerm_role_definition'' (existingID @ ''|'' @ rd_scope d)),
           \<lparr> remote = r', calls = calls w @ [CallGet (rd_scope d) roleId] \<rparr>)"
    using assms(1,5,6) by (simp add: createCheckExisting_def Let_def clientGet_eq [OF assms(4)])
  with assms(2,3) show ?thesis by (simp add: resourceArmRoleDefinitionCreate_def Let_def)
qed

theorem create_existing_fails_before_upsert_witness:
  "rd_IsNewResource sampleData
   \<and> createRoleDefinitionId sampleEnv sampleData = Inr ''r1''
   \<and> resourceArmRoleDefinitionCreate sampleEnv
        (replayClient (\<lambda>n. observed (Some ''t0'') (Some ''t1''))) sampleData startWorld
     = (Return (Some (ImportAsExistsError ''azurerm_role_definition'' ''rid|/subscriptions/X'')),
        sampleData,
        \<lparr> remote = 1, calls = [CallGet ''/subscriptions/X'' ''r1''] \<rparr>)"
proof -
  have n: "rd_IsNewResource sampleData" by (simp add: sampleData_def)
  have i: "createRoleDefinitionId sampleEnv sampleData = Inr ''r1''"
    by (simp add: createRoleDefinitionId_def sampleData_def)
  have g: "rcGet (replayClient (\<lambda>n. observed (Some ''t0'') (Some ''t1''))) (remote startWorld)
             (rd_scope sampleData) ''r1''
           = ((fst (observed (Some ''t0'') (Some ''t1'')), None), 1)"
    by (simp add: replayClient_def observed_def startWorld_def)
  have e: "ID (fst (observed (Some ''t0'') (Some ''t1''))) = Some ''rid''"
    by (simp add: observed_def)
  have ne: "''rid'' \<noteq> []" by simp
  have x: "expandRoleDefinitionAssignableScopes sampleData = Return [''/subscriptions/X'']"
    by (simp add: expandRoleDefinitionAssignableScopes_def sampleData_def)
  from create_existing_fails_before_upsert [OF n i x g e ne] n i
  show ?thesis by (simp add: startWorld_def sampleData_def)
qed

text \<open>
  C7. Read of a resource whose fetch answers not-found empties the stored identifier
  and returns no error, in the Role Definition handler and in the Administrator Binding
  handler.
\<close>

theorem read_not_found_clears_identifier:
  "(RoleDefinitionId env (rd_Id d) = (Some rid, None) \<longrightarrow>
    rcGet client (remote w) (Scope rid) (RoleID rid) = ((resp, Some e), r') \<longrightarrow>
    ResponseWasNotFound (Response resp) \<longrightarrow>
      fst (resourceArmRoleDefinitionRead env client d w) = Return None
      \<and> rd_Id (fst (snd (resourceArmRoleDefinitionRead env client d w))) = [])
   \<and> (ParseAzureResourceID aenv (ad_Id ad) = (Some aid, None) \<longrightarrow>
      acGet aclient r (ResourceGroup aid) (stringValue (Path aid ''servers'')) = ((aresp, Some ae), r1) \<longrightarrow>
      ResponseWasNotFound (AdminResponse aresp) \<longrightarrow>
        fst (resourceArmPostgreSQLAdministratorRead aenv aclient ad r) = Return None
        \<and> ad_Id (fst (snd (resourceArmPostgreSQLAdministratorRead aenv aclient ad r))) = [])"
  by (simp add: resourceArmRoleDefinitionRead_def resourceArmPostgreSQLAdministratorRead_def
        clientGet_def Let_def)

theorem read_not_found_clears_identifier_witness:
  "fst (resourceArmRoleDefinitionRead sampleEnv (replayClient sampleCreateScript) sampleData startWorld)
     = Return None
   \<and> rd_Id (fst (snd (resourceArmRoleDefinitionRead sampleEnv (replayClient sampleCreateScript)
                        sampleData startWorld))) = []
   \<and> fst (resourceArmPostgreSQLAdministratorRead sampleAdminEnv
            (replayAdminClient sampleAdminScript None) sampleAdminData 0) = Return None
   \<and> ad_Id (fst (snd (resourceArmPostgreSQLAdministratorRead sampleAdminEnv
                        (replayAdminClient sampleAdminScript None) sampleAdminData 0))) = []"
proof -
  have p: "RoleDefinitionId sampleEnv (rd_Id sampleData) = (Some sampleId, None)"
    by (simp add: sampleEnv_def sampleData_def sampleParse_def)
  have g: "rcGet (replayClient sampleCreateScript) (remote startWorld) (Scope sampleId) (RoleID sampleId)
           = ((bareResponse 404, Some (External ''not found'')), 1)"
    by (simp add: replayClient_def sampleCreateScript_def startWorld_def)
  have nf: "ResponseWasNotFound (Response (bareResponse 404))"
    by (simp add: ResponseWasNotFound_def bareResponse_def)
  have ap: "ParseAzureResourceID sampleAdminEnv (ad_Id sampleAdminData) = (Some sampleAdminId, None)"
    by (simp add: sampleAdminEnv_def sampleAdminData_def sampleAdminParse_def)
  have ag: "acGet (replayAdminClient sampleAdminScript None) 0 (ResourceGroup sampleAdminId)
              (stringValue (Path sampleAdminId ''servers''))
            = ((bareAdminResponse 404, Some (External ''not found'')), 1)"
    by (simp add: replayAdminClient_def sampleAdminScript_def)
  have anf: "ResponseWasNotFound (AdminResponse (bareAdminResponse 404))"
    by (simp add: ResponseWasNotFound_def bareAdminResponse_def)
  from read_not_found_clears_identifier
         [of sampleEnv sampleData sampleId "replayClient sampleCreateScript" startWorld
             "bareResponse 404" "External ''not found''" 1
             sampleAdminEnv sampleAdminData sampleAdminId "replayAdminClient sampleAdminScript None" 0
             "bareAdminResponse 404" "External ''not found''" 1]
       p g nf ap ag anf
  show ?thesis by blast
qed

text \<open>
  C8, as the code has it. Role Definition Delete returns no error when its delete call
  answers not-found. Administrator Binding Delete returns an error for every error of
  its delete call, not-found included; the error it returns is not that error itself
  but a new one, \<open>Error deleting PostgreSQL AD Administrator: %+v\<close>, formatted from it.
\<close>

theorem delete_role_tolerates_not_found_admin_wraps_error:
  "(RoleDefinitionId env (rd_Id d) = (Some rid, perr) \<longrightarrow>
    rcDelete client (remote w) (Scope rid) (RoleID rid) = ((resp, Some e), r') \<longrightarrow>
    ResponseWasNotFound (Response resp) \<longrightarrow>
      fst (resourceArmRoleDefinitionDelete env client d w) = Return None)
   \<and> (ParseAzureResourceID aenv (ad_Id ad) = (Some aid, None) \<longrightarrow>
      acDelete aclient r (ResourceGroup aid) (stringValue (Path aid ''servers'')) = ((future, Some ae), r1) \<longrightarrow>
        fst (resourceArmPostgreSQLAdministratorDelete aenv aclient ad r)
        = Return (Some (Errorf ''Error deleting PostgreSQL AD Administrator: %+v'' [Err ae])))"
  by (simp add: resourceArmRoleDefinitionDelete_def resourceArmPostgreSQLAdministratorDelete_def
        clientDelete_def Let_def)

theorem delete_role_tolerates_not_found_admin_wraps_error_witness:
  "fst (resourceArmRoleDefinitionDelete sampleEnv (replayClient sampleCreateScript) sampleData startWorld)
     = Return None
   \<and> fst (resourceArmPostgreSQLAdministratorDelete sampleAdminEnv
            (replayAdminClient sampleAdminScript (Some (External ''not found''))) sampleAdminData 0)
     = Return (Some (Errorf ''Error deleting PostgreSQL AD Administrator: %+v''
                       [Err (External ''not found'')]))"
proof -
  have p: "RoleDefinitionId sampleEnv (rd_Id sampleData) = (Some sampleId, None)"
    by (simp add: sampleEnv_def sampleData_def sampleParse_def)
  have g: "rcDelete (replayClient sampleCreateScript) (remote startWorld) (Scope sampleId) (RoleID sampleId)
           = ((bareResponse 404, Some (External ''not found'')), 1)"
    by (simp add: replayClient_def sampleCreateScript_def startWorld_def)
  have nf: "ResponseWasNotFound (Response (bareResponse 404))"
    by (simp add: ResponseWasNotFound_def bareResponse_def)
  have ap: "ParseAzureResourceID sampleAdminEnv (ad_Id sampleAdminData) = (Some sampleAdminId, None)"
    by (simp add: sampleAdminEnv_def sampleAdminData_def sampleAdminParse_def)
  have ag: "acDelete (replayAdminClient sampleAdminScript (Some (External ''not found''))) 0
              (ResourceGroup sampleAdminId) (stringValue (Path sampleAdminId ''servers''))
            = ((0, Some (External ''not found'')), 1)"
    by (simp add: replayAdminClient_def)
  from delete_role_tolerates_not_found_admin_wraps_error
         [of sampleEnv sampleData sampleId None "replayClient sampleCreateScript" startWorld
             "bareResponse 404" "External ''not found''" 1
             sampleAdminEnv sampleAdminData sampleAdminId
             "replayAdminClient sampleAdminScript (Some (External ''not found''))" 0
             0 "External ''not found''" 1]
       p g nf ap ag
  show ?thesis by blast
qed

text \<open>
  The claim C8 as stated fails: the not-found error of the delete call is not what
  Administrator Binding Delete returns.
\<close>

theorem admin_delete_returns_error_unchanged_counterexample:
  "fst (resourceArmPostgreSQLAdministratorDelete sampleAdminEnv
          (replayAdminClient sampleAdminScript (Some (External ''not found''))) sampleAdminData 0)
   \<noteq> Return (Some (External ''not found''))"
  by (simp add: resourceArmPostgreSQLAdministratorDelete_def sampleAdminEnv_def sampleAdminData_def
        sampleAdminParse_def sampleAdminId_def replayAdminClient_def stringValue_def)

text \<open>
  A stored identifier that the parser rejects: Read and Update return the parse error,
  with the record and the world as they were, so before any API call.
\<close>

lemma read_returns_parse_error:
  "snd (RoleDefinitionId env (rd_Id d)) = Some e
   \<Longrightarrow> resourceArmRoleDefinitionRead env client d w = (Return (Some e), d, w)"
  by (cases "RoleDefinitionId env (rd_Id d)") (simp add: resourceArmRoleDefinitionRead_def)

lemma update_returns_parse_error:
  "snd (RoleDefinitionId env (rd_Id d)) = Some e
   \<Longrightarrow> resourceArmRoleDefinitionUpdate env client d w = (Return (Some e), d, w)"
  by (cases "RoleDefinitionId env (rd_Id d)") (simp add: resourceArmRoleDefinitionUpdate_def)

text \<open>
  Delete drops the parse error: whatever the parser says, Delete never returns that
  error with the world untouched. It panics on the nil pointer, or it goes on to the
  delete call.
\<close>

lemma delete_ignores_parse_error:
  "fst (resourceArmRoleDefinitionDelete env client d w) = Crash
   \<or> calls (snd (snd (resourceArmRoleDefinitionDelete env client d w))) \<noteq> calls w"
  by (simp add: resourceArmRoleDefinitionDelete_def clientDelete_def Let_def
        split: prod.splits option.splits)

text \<open>
  C9. The claim holds for Read and Update (the two lemmas above) and fails for Delete:
  when the parser rejects the stored identifier and hands back a nil pointer with its
  error, Delete does not return the error but panics on the pointer.
\<close>

theorem delete_rejected_identifier_crashes:
  "resourceArmRoleDefinitionDelete (env\<lparr> RoleDefinitionId := (\<lambda>input. (None, Some e)) \<rparr>) client d w
   = (Crash, d, w)"
  by (simp add: resourceArmRoleDefinitionDelete_def)

text \<open>
  Create and Update expand the assignable scopes (lines 153 and 212) before their first
  API call, so a nil entry makes them panic with the world untouched.
\<close>

lemma create_nil_scope_entry_crashes:
  "expandRoleDefinitionAssignableScopes d = Crash
   \<Longrightarrow> createRoleDefinitionId env d = Inr roleId
   \<Longrightarrow> resourceArmRoleDefinitionCreate env client d w = (Crash, d, w)"
  by (simp add: resourceArmRoleDefinitionCreate_def)

lemma update_nil_scope_entry_crashes:
  "expandRoleDefinitionAssignableScopes d = Crash
   \<Longrightarrow> snd (RoleDefinitionId env (rd_Id d)) = None
   \<Longrightarrow> resourceArmRoleDefinitionUpdate env client d w = (Crash, d, w)"
  by (cases "RoleDefinitionId env (rd_Id d)") (simp add: resourceArmRoleDefinitionUpdate_def)

text \<open>
  C10. In Administrator Binding CreateUpdate, when the check for an existing object
  passes and the upsert, its wait and the re-fetch succeed, a re-fetched object without
  an identifier makes the handler panic. In Role Definition Create, on the same path, a
  re-read object without an identifier or with an empty one gives the error
  \<open>Cannot read Role Definition ID\<close>. That path of Create begins where the role id is
  there and the expansion of the assignable scopes has returned.
\<close>

theorem admin_createupdate_crashes_where_role_create_errors:
  "(adminCheckExisting aenv aclient ad r = (None, r1) \<longrightarrow>
    acCreateOrUpdate aclient r1 (ad_resource_group_name ad) (ad_server_name ad)
        (adminParameters (ad_login ad) (FromStringOrNil aenv (ad_object_id ad))
           (FromStringOrNil aenv (ad_tenant_id ad)))
      = ((future, None), r2) \<longrightarrow>
    acWaitForCompletionRef aclient r2 future = (None, r3) \<longrightarrow>
    acGet aclient r3 (ad_resource_group_name ad) (ad_server_name ad) = ((aresp, None), r4) \<longrightarrow>
    AdminID aresp = None \<longrightarrow>
      fst (resourceArmPostgreSQLAdministratorCreateUpdate aenv aclient ad r) = Crash)
   \<and> (createRoleDefinitionId env d = Inr roleId \<longrightarrow>
      expandRoleDefinitionAssignableScopes d = Return assignableScopes \<longrightarrow>
      createCheckExisting client d roleId w = (None, w1) \<longrightarrow>
      clientCreateOrUpdate client (rd_scope d) roleId (rolePayload env d assignableScopes) w1
        = ((created, None), w2) \<longrightarrow>
      clientGet client (rd_scope d) roleId w2 = ((read, None), w3) \<longrightarrow>
      (ID read = None \<or> ID read = Some []) \<longrightarrow>
        resourceArmRoleDefinitionCreate env client d w
        = (Return (Some (Errorf ''Cannot read Role Definition ID for %q (Scope %q)''
                           [Str (rd_name d), Str (rd_scope d)])), d, w3))"
proof (intro conjI impI)
  assume "adminCheckExisting aenv aclient ad r = (None, r1)"
    and "acCreateOrUpdate aclient r1 (ad_resource_group_name ad) (ad_server_name ad)
        (adminParameters (ad_login ad) (FromStringOrNil aenv (ad_object_id ad))
           (FromStringOrNil aenv (ad_tenant_id ad)))
      = ((future, None), r2)"
    and "acWaitForCompletionRef aclient r2 future = (None, r3)"
    and "acGet aclient r3 (ad_resource_group_name ad) (ad_server_name ad) = ((aresp, None), r4)"
    and "AdminID aresp = None"
  then show "fst (resourceArmPostgreSQLAdministratorCreateUpdate aenv aclient ad r) = Crash"
    by (simp add: resourceArmPostgreSQLAdministratorCreateUpdate_def Let_def)
next
  assume "createRoleDefinitionId env d = Inr roleId"
    and "expandRoleDefinitionAssignableScopes d = Return assignableScopes"
    and "createCheckExisting client d roleId w = (None, w1)"
    and "clientCreateOrUpdate client (rd_scope d) roleId (rolePayload env d assignableScopes) w1
           = ((created, None), w2)"
    and "clientGet client (rd_scope d) roleId w2 = ((read, None), w3)"
    and "ID read = None \<or> ID read = Some []"
  then show "resourceArmRoleDefinitionCreate env client d w
        = (Return (Some (Errorf ''Cannot read Role Definition ID for %q (Scope %q)''
                           [Str (rd_name d), Str (rd_scope d)])), d, w3)"
    by (auto simp add: resourceArmRoleDefinitionCreate_def Let_def)
qed

theorem admin_createupdate_crashes_where_role_create_errors_witness:
  "fst (resourceArmPostgreSQLAdministratorCreateUpdate sampleAdminEnv
          (replayAdminClient sampleAdminScript None) sampleAdminData 0) = Crash
   \<and> fst (resourceArmRoleDefinitionCreate sampleEnv (replayClient sampleCreateScript)
            sampleData startWorld)
     = Return (Some (Errorf ''Cannot read Role Definition ID for %q (Scope %q)''
                       [Str ''reader'', Str ''/subscriptions/X'']))"
proof -
  let ?ac = "replayAdminClient sampleAdminScript None"
  have a1: "adminCheckExisting sampleAdminEnv ?ac sampleAdminData 0 = (None, 1)"
    by (simp add: adminCheckExisting_def sampleAdminEnv_def sampleAdminData_def
          replayAdminClient_def sampleAdminScript_def bareAdminResponse_def ResponseWasNotFound_def)
  have a2: "acCreateOrUpdate ?ac 1 (ad_resource_group_name sampleAdminData)
              (ad_server_name sampleAdminData)
              (adminParameters (ad_login sampleAdminData)
                 (FromStringOrNil sampleAdminEnv (ad_object_id sampleAdminData))
                 (FromStringOrNil sampleAdminEnv (ad_tenant_id sampleAdminData)))
            = ((1, None), 2)"
    by (simp add: replayAdminClient_def)
  have a3: "acWaitForCompletionRef ?ac 2 1 = (None, 3)"
    by (simp add: replayAdminClient_def)
  have a4: "acGet ?ac 3 (ad_resource_group_name sampleAdminData) (ad_server_name sampleAdminData)
            = ((bareAdminResponse 200, None), 4)"
    by (simp add: replayAdminClient_def sampleAdminScript_def)
  have a5: "AdminID (bareAdminResponse 200) = None"
    by (simp add: bareAdminResponse_def)
  let ?c = "replayClient sampleCreateScript"
  let ?w1 = "\<lparr> remote = 1, calls = [CallGet ''/subscriptions/X'' ''r1''] \<rparr> :: nat world"
  let ?w2 = "\<lparr> remote = 2, calls = [CallGet ''/subscriptions/X'' ''r1'',
               CallCreateOrUpdate ''/subscriptions/X'' ''r1'' (rolePayload sampleEnv sampleData [''/subscriptions/X''])] \<rparr>
             :: nat world"
  let ?w3 = "\<lparr> remote = 3, calls = [CallGet ''/subscriptions/X'' ''r1'',
               CallCreateOrUpdate ''/subscriptions/X'' ''r1'' (rolePayload sampleEnv sampleData [''/subscriptions/X'']),
               CallGet ''/subscriptions/X'' ''r1''] \<rparr> :: nat world"
  have s: "rd_scope sampleData = ''/subscriptions/X''" and nm: "rd_name sampleData = ''reader''"
    by (simp_all add: sampleData_def)
  have b1: "createRoleDefinitionId sampleEnv sampleData = Inr ''r1''"
    by (simp add: createRoleDefinitionId_def sampleData_def)
  have bx: "expandRoleDefinitionAssignableScopes sampleData = Return [''/subscriptions/X'']"
    by (simp add: expandRoleDefinitionAssignableScopes_def sampleData_def)
  have b2: "createCheckExisting ?c sampleData ''r1'' startWorld = (None, ?w1)"
    by (simp add: createCheckExisting_def clientGet_def replayClient_def sampleCreateScript_def
          bareResponse_def ResponseWasNotFound_def startWorld_def sampleData_def)
  have b3: "clientCreateOrUpdate ?c (rd_scope sampleData) ''r1'' (rolePayload sampleEnv sampleData [''/subscriptions/X'']) ?w1
            = ((bareResponse 200, None), ?w2)"
    by (simp add: clientCreateOrUpdate_def replayClient_def sampleCreateScript_def s)
  have b4: "clientGet ?c (rd_scope sampleData) ''r1'' ?w2 = ((bareResponse 200, None), ?w3)"
    by (simp add: clientGet_def replayClient_def sampleCreateScript_def s)
  have b5: "ID (bareResponse 200) = None \<or> ID (bareResponse 200) = Some []"
    by (simp add: bareResponse_def)
  note t = admin_createupdate_crashes_where_role_create_errors
             [of sampleAdminEnv ?ac sampleAdminData 0 1 1 2 3 "bareAdminResponse 200" 4
                 sampleEnv sampleData "''r1''" "[''/subscriptions/X'']" ?c startWorld ?w1 "bareResponse 200" ?w2
                 "bareResponse 200" ?w3]
  from t a1 a2 a3 a4 a5
  have "fst (resourceArmPostgreSQLAdministratorCreateUpdate sampleAdminEnv ?ac sampleAdminData 0) = Crash"
    by blast
  moreover from t b1 bx b2 b3 b4 b5
  have "resourceArmRoleDefinitionCreate sampleEnv ?c sampleData startWorld
        = (Return (Some (Errorf ''Cannot read Role Definition ID for %q (Scope %q)''
                           [Str (rd_name sampleData), Str (rd_scope sampleData)])), sampleData, ?w3)"
    by blast
  ultimately show ?thesis by (simp add: s nm)
qed

end
